theory Spec2Isabelle
  imports Main "HOL-Library.Word"
begin

section \<open>Window identity reconciliation of the sticky-notes applet\<close>

text \<open>
  The development embeds the window-calls D-Bus layer (window_calls.go, found as
  \<^verbatim>\<open>src/unnamed/part_000\<close>) and the window-handle logic of \<^verbatim>\<open>src/stickynotes/gui.go\<close>.
  The file \<^verbatim>\<open>gui.go\<close> holds two copies of the package: an earlier one (lines 1-1009,
  size matching, immediate saves) and a later one (lines 1010-2575, title matching,
  debounced saves, handle reset on hide). Definitions of the later copy carry the source's
  names; definitions taken from the earlier copy carry the suffix \<open>_old\<close>.

  Go's \<^verbatim>\<open>int\<close> is a 64-bit two's complement integer and \<^verbatim>\<open>uint32\<close> a 32-bit unsigned
  one: both are words, read with \<open>sint\<close> and \<open>unat\<close>; \<open>+\<close> and \<open>-\<close> wrap around as in Go.
\<close>

subsection \<open>Data model\<close>

type_synonym handle = "32 word"
type_synonym go_int = "64 word"

record WindowInfo =
  ID :: handle
  PID :: go_int
  X :: go_int
  Y :: go_int
  Width :: go_int
  Height :: go_int
  WMClass :: string
  Title :: string

record WindowDetails = WindowInfo +
  Maximized :: go_int
  Focus :: bool

text \<open>
  The D-Bus peer is outside the program. One call to it ends in one of these ways: the
  call fails with a \<^verbatim>\<open>dbus.Error\<close> of some name, it fails with another kind of error,
  its answer is not valid JSON for the expected type, or the answer is parsed.
\<close>

datatype dbus_error = ServiceUnknown | UnknownMethod | JSError | OtherDBusError

datatype 'a call_result = CallFailed dbus_error | NotDBusError | Unparsable | Parsed 'a

text \<open>
  What the toolkit reports for a note's window (\<^verbatim>\<open>GetPosition\<close>, \<^verbatim>\<open>GetSize\<close>,
  \<^verbatim>\<open>GetVisible\<close>) and what the program has set on it (opacity, title). The window
  manager changes the reported geometry between two handlers.
\<close>

record GtkWindow =
  GetPosition :: "go_int \<times> go_int"
  GetSize :: "go_int \<times> go_int"
  GetVisible :: bool
  GetOpacity :: nat
  GetTitle :: string

text \<open>
  \<open>World\<close> is what the surroundings answer at one moment: the session type, the process
  id, whether the session bus can be reached, the shell extension's answer to each
  method, and the toolkit (whether the builder yields the main window, the window as it is
  freshly built, what \<^verbatim>\<open>GetPosition\<close> reports after a \<^verbatim>\<open>Move\<close> request, and the answer to
  the delete dialog). A \<^verbatim>\<open>List\<close> answer of JSON \<^verbatim>\<open>null\<close> unmarshals to Go's nil slice
  (\<open>None\<close>).
\<close>

record World =
  IsWayland :: bool
  currentPID :: go_int
  ConnectSessionBus :: bool
  List_call :: "WindowInfo list option call_result"
  Details_call :: "handle \<Rightarrow> WindowDetails call_result"
  Move_call :: "handle \<Rightarrow> 32 word \<Rightarrow> 32 word \<Rightarrow> dbus_error option"
  BuilderOK :: bool
  gtk_fresh :: GtkWindow
  gtk_Move :: "go_int \<times> go_int \<Rightarrow> go_int \<times> go_int \<Rightarrow> go_int \<times> go_int"
  dialog_accept :: bool

text \<open>
  The package variables of window_calls.go. \<open>bus_log\<close> is a ghost field: it records every
  attempt to reach the bus (a connection attempt or a method call), so that "no IPC is
  attempted" is a statement about the state.
\<close>

datatype bus_event = Connect | CallList | CallDetails handle | CallMove handle "32 word" "32 word"

record Globals =
  windowCallsAvailable :: bool
  windowCallsChecked :: bool
  dbusConn :: bool
  bus_log :: "bus_event list"

datatype go_error = ErrConnect | ErrCall | ErrParse | ErrNotAvailable

subsection \<open>window_calls.go\<close>

definition IsWindowCallsAvailable :: "World \<Rightarrow> Globals \<Rightarrow> bool" where
  "IsWindowCallsAvailable W g = (IsWayland W \<and> windowCallsAvailable g)"

definition getDBusConnection :: "World \<Rightarrow> Globals \<Rightarrow> bool \<times> Globals" where
  "getDBusConnection W g =
     (if dbusConn g then (True, g)
      else if ConnectSessionBus W
        then (True, g\<lparr>dbusConn := True, bus_log := bus_log g @ [Connect]\<rparr>)
        else (False, g\<lparr>bus_log := bus_log g @ [Connect]\<rparr>))"

definition markUnavailable :: "Globals \<Rightarrow> Globals" where
  "markUnavailable g = g\<lparr>windowCallsAvailable := False, windowCallsChecked := True\<rparr>"

definition ListWindows ::
  "World \<Rightarrow> Globals \<Rightarrow> (go_error + WindowInfo list option) \<times> Globals" where
  "ListWindows W g =
     (if \<not> IsWindowCallsAvailable W g then (Inr None, g)
      else case getDBusConnection W g of
        (False, g1) \<Rightarrow> (Inl ErrConnect, g1)
      | (True, g1) \<Rightarrow>
          (let g2 = g1\<lparr>bus_log := bus_log g1 @ [CallList]\<rparr> in
           case List_call W of
             CallFailed e \<Rightarrow>
               if e = ServiceUnknown \<or> e = UnknownMethod
               then (Inr None, markUnavailable g2)
               else (Inl ErrCall, g2)
           | NotDBusError \<Rightarrow> (Inl ErrCall, g2)
           | Unparsable \<Rightarrow> (Inl ErrParse, g2)
           | Parsed ws \<Rightarrow> (Inr ws, g2)))"

definition GetWindowDetails ::
  "World \<Rightarrow> Globals \<Rightarrow> handle \<Rightarrow> (go_error + WindowDetails option) \<times> Globals" where
  "GetWindowDetails W g windowID =
     (if \<not> IsWindowCallsAvailable W g then (Inr None, g)
      else case getDBusConnection W g of
        (False, g1) \<Rightarrow> (Inl ErrConnect, g1)
      | (True, g1) \<Rightarrow>
          (let g2 = g1\<lparr>bus_log := bus_log g1 @ [CallDetails windowID]\<rparr> in
           case Details_call W windowID of
             CallFailed e \<Rightarrow>
               if e = JSError then (Inr None, g2)
               else if e = ServiceUnknown \<or> e = UnknownMethod
               then (Inr None, markUnavailable g2)
               else (Inl ErrCall, g2)
           | NotDBusError \<Rightarrow> (Inl ErrCall, g2)
           | Unparsable \<Rightarrow> (Inl ErrParse, g2)
           | Parsed d \<Rightarrow> (Inr (Some d), g2)))"

text \<open>\<^verbatim>\<open>MoveWindow\<close> passes \<^verbatim>\<open>int32(x)\<close> and \<^verbatim>\<open>int32(y)\<close>: the low 32 bits.\<close>

definition MoveWindow ::
  "World \<Rightarrow> Globals \<Rightarrow> handle \<Rightarrow> go_int \<Rightarrow> go_int \<Rightarrow> go_error option \<times> Globals" where
  "MoveWindow W g windowID x y =
     (if \<not> IsWindowCallsAvailable W g then (Some ErrNotAvailable, g)
      else case getDBusConnection W g of
        (False, g1) \<Rightarrow> (Some ErrConnect, g1)
      | (True, g1) \<Rightarrow>
          (let g2 = g1\<lparr>bus_log := bus_log g1 @ [CallMove windowID (ucast x) (ucast y)]\<rparr> in
           case Move_call W windowID (ucast x) (ucast y) of
             Some e \<Rightarrow> (Some ErrCall, g2)
           | None \<Rightarrow> (None, g2)))"

text \<open>\<^verbatim>\<open>strings.Contains\<close>, on byte strings.\<close>

fun HasPrefix :: "string \<Rightarrow> string \<Rightarrow> bool" where
  "HasPrefix s [] = True"
| "HasPrefix [] (p # ps) = False"
| "HasPrefix (c # cs) (p # ps) = (c = p \<and> HasPrefix cs ps)"

fun Contains :: "string \<Rightarrow> string \<Rightarrow> bool" where
  "Contains [] substr = (substr = [])"
| "Contains (c # cs) substr = (HasPrefix (c # cs) substr \<or> Contains cs substr)"

text \<open>
  The loop of \<^verbatim>\<open>GetCurrentProcessWindows\<close>, with \<^verbatim>\<open>ourWindows\<close> as accumulator. Go's nil
  slice and the empty slice are both \<open>[]\<close> here: every caller only ranges over the result
  or takes its length.
\<close>

fun ourWindows_loop :: "go_int \<Rightarrow> WindowInfo list \<Rightarrow> WindowInfo list \<Rightarrow> WindowInfo list" where
  "ourWindows_loop pid ourWindows [] = ourWindows"
| "ourWindows_loop pid ourWindows (win # rest) =
     (let pidMatch = (PID win = pid);
          titleMatch = Contains (Title win) ''Sticky Notes''
      in if pidMatch \<and> titleMatch then ourWindows_loop pid (ourWindows @ [win]) rest
         else if pidMatch then ourWindows_loop pid (ourWindows @ [win]) rest
         else ourWindows_loop pid ourWindows rest)"

definition GetCurrentProcessWindows ::
  "World \<Rightarrow> Globals \<Rightarrow> (go_error + WindowInfo list) \<times> Globals" where
  "GetCurrentProcessWindows W g =
     (case ListWindows W g of
        (Inl err, g1) \<Rightarrow> (Inl err, g1)
      | (Inr None, g1) \<Rightarrow> (Inl ErrNotAvailable, g1)
      | (Inr (Some windows), g1) \<Rightarrow> (Inr (ourWindows_loop (currentPID W) [] windows), g1))"

subsection \<open>gui.go: the note window and its state\<close>

text \<open>
  The fields of \<^verbatim>\<open>StickyNote\<close> that the handle logic reads or writes. \<open>WinMain = None\<close> is
  Go's nil; \<open>saveTimeoutID = 0\<close> means that no save is pending.
\<close>

record StickyNote =
  WinMain :: "GtkWindow option"
  LastKnownPos :: "go_int \<times> go_int"
  LastKnownSize :: "go_int \<times> go_int"
  WindowID :: handle
  saveTimeoutID :: nat

text \<open>
  An entry of \<^verbatim>\<open>Note.Properties\<close> that holds a pair: absent (or not a list of at least two
  elements), a JSON list whose first two elements are not both numbers, a JSON list of two
  numbers (already converted with \<^verbatim>\<open>int(...)\<close>), or the \<^verbatim>\<open>[]int\<close> that
  \<^verbatim>\<open>StickyNote.Properties\<close> stores, which the type assertion \<^verbatim>\<open>.([]interface{})\<close> rejects.
\<close>

datatype prop_pair = NoPair | BadPair | NumPair go_int go_int | IntPair go_int go_int

record Note =
  UUID :: string
  prop_position :: prop_pair
  prop_size :: prop_pair
  GUI :: "StickyNote option"

text \<open>
  Timers of the GLib main loop. A callback is a closure of gui.go; the constructor names
  which one and holds what it captured (the note's address and \<^verbatim>\<open>restorePos\<close>).
\<close>

datatype callback =
    SaveTimeout nat
  | BuildTimeout nat "go_int \<times> go_int"
  | IdleMove nat "go_int \<times> go_int"

record timer =
  source :: nat
  due :: nat
  action :: callback

text \<open>
  The whole state: the package variables, the notes by address (Go compares notes by
  pointer), \<^verbatim>\<open>NoteSet.Notes\<close> as the list of their addresses, the pending timers, the
  clock in milliseconds, and the persistence writes issued so far (one entry per
  \<^verbatim>\<open>NoteSet.Save\<close>: each note's UUID with the position and size written for it).

  A \<^verbatim>\<open>StickyNote\<close> is kept in its note's \<^verbatim>\<open>GUI\<close> field. When \<^verbatim>\<open>onDelete\<close> sets that field to
  nil the object does not go away: the closures of its pending callbacks still hold it.
  \<open>detached\<close> keeps such an object, under the address of the note it was built for
  (\<^verbatim>\<open>sn.Note\<close>). \<^verbatim>\<open>Note.Show\<close> is only reached through \<^verbatim>\<open>NoteSet.Notes\<close>, which a deleted note
  has left, so a note is given a \<^verbatim>\<open>StickyNote\<close> only once.
\<close>

record Sys =
  globals :: Globals
  heap :: "nat \<Rightarrow> Note"
  Notes :: "nat list"
  timers :: "timer list"
  next_source :: nat
  clock :: nat
  writes :: "(string \<times> prop_pair \<times> prop_pair) list list"
  detached :: "nat \<Rightarrow> StickyNote option"

definition absInt :: "go_int \<Rightarrow> go_int" where
  "absInt x = (if x <s 0 then - x else x)"

text \<open>\<^verbatim>\<open>err == nil && details != nil\<close> on a result of \<^verbatim>\<open>GetWindowDetails\<close>.\<close>

definition got :: "go_error + 'a option \<Rightarrow> 'a option" where
  "got r = (case r of Inl err \<Rightarrow> None | Inr None \<Rightarrow> None | Inr (Some d) \<Rightarrow> Some d)"

text \<open>
  \<^verbatim>\<open>fmt.Sprintf("Sticky Notes - %s", sn.Note.UUID[:8])\<close>: the slice expression panics on a
  UUID shorter than 8 bytes (\<open>None\<close>).
\<close>

definition noteTitle :: "string \<Rightarrow> string option" where
  "noteTitle uuid = (if length uuid < 8 then None else Some (''Sticky Notes - '' @ take 8 uuid))"

definition setGUI :: "Sys \<Rightarrow> nat \<Rightarrow> StickyNote \<Rightarrow> Sys" where
  "setGUI s a sn = s\<lparr>heap := (heap s)(a := (heap s a)\<lparr>GUI := Some sn\<rparr>)\<rparr>"



text \<open>
  The scan that every matcher repeats:
  \<^verbatim>\<open>otherNote.GUI != nil && otherNote.GUI.WindowID == win.ID && otherNote != sn.Note\<close>,
  stopping at the first such note of \<^verbatim>\<open>NoteSet.Notes\<close>.
\<close>

definition holds :: "Sys \<Rightarrow> nat \<Rightarrow> handle \<Rightarrow> nat \<Rightarrow> bool" where
  "holds s a wid b =
     ((case GUI (heap s b) of None \<Rightarrow> False | Some other \<Rightarrow> WindowID other = wid) \<and> b \<noteq> a)"

definition holder :: "Sys \<Rightarrow> nat \<Rightarrow> handle \<Rightarrow> nat option" where
  "holder s a wid = find (holds s a wid) (Notes s)"

subsection \<open>gui.go: geometry resolution and what is saved\<close>

text \<open>
  \<^verbatim>\<open>UpdateNote\<close> (the same in both copies). Its first three lines copy the text buffer
  into the note's body, which no handle or geometry depends on; they are left out.
\<close>

definition UpdateNote :: "World \<Rightarrow> Globals \<Rightarrow> StickyNote \<Rightarrow> StickyNote \<times> Globals" where
  "UpdateNote W g sn =
     (case WinMain sn of
        None \<Rightarrow> (sn, g)
      | Some win \<Rightarrow>
          if IsWindowCallsAvailable W g \<and> WindowID sn \<noteq> 0
          then (case GetWindowDetails W g (WindowID sn) of (r, g1) \<Rightarrow>
                  (case got r of
                     Some details \<Rightarrow>
                       (sn\<lparr>LastKnownPos := (X details, Y details),
                           LastKnownSize := (Width details, Height details)\<rparr>, g1)
                   | None \<Rightarrow>
                       (sn\<lparr>LastKnownPos := GetPosition win, LastKnownSize := GetSize win\<rparr>, g1)))
          else (sn\<lparr>LastKnownPos := GetPosition win, LastKnownSize := GetSize win\<rparr>, g))"

text \<open>\<^verbatim>\<open>StickyNote.Properties\<close>: the position and the size that are written (\<^verbatim>\<open>locked\<close> is left out).\<close>

definition Properties :: "StickyNote \<Rightarrow> prop_pair \<times> prop_pair" where
  "Properties sn =
     (let pos = LastKnownPos sn; sz = LastKnownSize sn in
      case WinMain sn of
        None \<Rightarrow> (IntPair (fst pos) (snd pos), IntPair (fst sz) (snd sz))
      | Some win \<Rightarrow>
          (let x = fst (GetPosition win); y = snd (GetPosition win);
               w = fst (GetSize win); h = snd (GetSize win);
               pos = (if (x \<noteq> 0 \<or> y \<noteq> 0) \<and>
                         (fst pos = 10 \<and> snd pos = 10 \<or> fst pos = 0 \<and> snd pos = 0)
                      then (x, y) else pos);
               sz = (if 1 <s w \<and> 1 <s h then (w, h) else sz)
           in (IntPair (fst pos) (snd pos), IntPair (fst sz) (snd sz))))"

text \<open>\<^verbatim>\<open>Note.Extract\<close>: with a GUI, first \<^verbatim>\<open>UpdateNote\<close>, then \<^verbatim>\<open>Properties\<close>.\<close>

definition Extract :: "World \<Rightarrow> Sys \<Rightarrow> nat \<Rightarrow> (string \<times> prop_pair \<times> prop_pair) \<times> Sys" where
  "Extract W s a =
     (let n = heap s a in
      case GUI n of
        None \<Rightarrow> ((UUID n, prop_position n, prop_size n), s)
      | Some sn \<Rightarrow>
          (case UpdateNote W (globals s) sn of (sn1, g1) \<Rightarrow>
             (let p = Properties sn1;
                  n1 = n\<lparr>GUI := Some sn1, prop_position := fst p, prop_size := snd p\<rparr>
              in ((UUID n, fst p, snd p), s\<lparr>globals := g1, heap := (heap s)(a := n1)\<rparr>))))"

fun Dumps :: "World \<Rightarrow> nat list \<Rightarrow> Sys \<Rightarrow> (string \<times> prop_pair \<times> prop_pair) list \<times> Sys" where
  "Dumps W [] s = ([], s)"
| "Dumps W (a # rest) s =
     (case Extract W s a of (e, s1) \<Rightarrow>
        (case Dumps W rest s1 of (es, s2) \<Rightarrow> (e # es, s2)))"

definition Save :: "World \<Rightarrow> Sys \<Rightarrow> Sys" where
  "Save W s = (case Dumps W (Notes s) s of (out, s1) \<Rightarrow> s1\<lparr>writes := writes s1 @ [out]\<rparr>)"

subsection \<open>gui.go: timers\<close>

text \<open>
  \<^verbatim>\<open>glib.TimeoutAdd\<close> returns a fresh, positive source id; \<^verbatim>\<open>glib.SourceRemove\<close> drops the
  source with that id. Source ids are \<^verbatim>\<open>uint\<close> in Go; the model counts them in \<open>nat\<close>.
\<close>

definition SourceRemove :: "nat \<Rightarrow> Sys \<Rightarrow> Sys" where
  "SourceRemove i s = s\<lparr>timers := filter (\<lambda>t. source t \<noteq> i) (timers s)\<rparr>"

definition TimeoutAdd :: "nat \<Rightarrow> callback \<Rightarrow> Sys \<Rightarrow> nat \<times> Sys" where
  "TimeoutAdd ms cb s =
     (let i = Suc (next_source s)
      in (i, s\<lparr>timers := timers s @ [\<lparr>source = i, due = clock s + ms, action = cb\<rparr>],
               next_source := i\<rparr>))"

text \<open>
  The block \<^verbatim>\<open>if sn.saveTimeoutID != 0 { glib.SourceRemove(sn.saveTimeoutID); sn.saveTimeoutID = 0 }\<close>
  of \<^verbatim>\<open>onConfigure\<close>, \<^verbatim>\<open>Hide\<close> and \<^verbatim>\<open>onDelete\<close>.
\<close>

definition cancelSave :: "Sys \<Rightarrow> nat \<Rightarrow> Sys" where
  "cancelSave s a =
     (case GUI (heap s a) of
        None \<Rightarrow> s
      | Some sn \<Rightarrow>
          if saveTimeoutID sn \<noteq> 0
          then setGUI (SourceRemove (saveTimeoutID sn) s) a (sn\<lparr>saveTimeoutID := 0\<rparr>)
          else s)"

text \<open>
  \<^verbatim>\<open>sn.saveTimeoutID = glib.TimeoutAdd(500, func() bool { sn.NoteSet.Save(); sn.saveTimeoutID = 0; return false })\<close>
\<close>

definition scheduleSave :: "Sys \<Rightarrow> nat \<Rightarrow> StickyNote \<Rightarrow> Sys" where
  "scheduleSave s a sn =
     (case TimeoutAdd 500 (SaveTimeout a) s of (i, s1) \<Rightarrow> setGUI s1 a (sn\<lparr>saveTimeoutID := i\<rparr>))"

subsection \<open>gui.go: matching a note to a window\<close>

definition sizeMatch :: "WindowDetails \<Rightarrow> go_int \<Rightarrow> go_int \<Rightarrow> bool" where
  "sizeMatch details w h =
     (absInt (Width details - w) <s 10 \<and> absInt (Height details - h) <s 10)"

definition posMatch :: "WindowDetails \<Rightarrow> go_int \<Rightarrow> go_int \<Rightarrow> bool" where
  "posMatch details expectedX expectedY =
     (absInt (X details - expectedX) <s 50 \<and> absInt (Y details - expectedY) <s 50)"

text \<open>
  The score of the earlier \<^verbatim>\<open>assignWindowID\<close>: 10 points for the size, 5 for the
  position when \<^verbatim>\<open>expectedX != 0 || expectedY != 0\<close>. It is an \<^verbatim>\<open>int\<close> that only
  takes the values 0, 5, 10 and 15, kept in \<open>nat\<close>.
\<close>

definition score :: "WindowDetails \<Rightarrow> go_int \<Rightarrow> go_int \<Rightarrow> go_int \<Rightarrow> go_int \<Rightarrow> nat" where
  "score details w h expectedX expectedY =
     (if sizeMatch details w h then 10 else 0) +
     (if (expectedX \<noteq> 0 \<or> expectedY \<noteq> 0) \<and> posMatch details expectedX expectedY
      then 5 else 0)"

definition toDetails :: "WindowInfo \<Rightarrow> WindowDetails" where
  "toDetails win = \<lparr>ID = ID win, PID = PID win, X = X win, Y = Y win, Width = Width win,
                     Height = Height win, WMClass = WMClass win, Title = Title win,
                     Maximized = 0, Focus = False\<rparr>"

text \<open>
  The loop of the earlier \<^verbatim>\<open>assignWindowID\<close> (lines 364-416), with \<^verbatim>\<open>bestMatch\<close> as
  accumulator. The notes do not change during the loop; the package variables can (a
  \<^verbatim>\<open>Details\<close> call may mark the extension unavailable).
\<close>

fun bestMatch_loop ::
  "World \<Rightarrow> Sys \<Rightarrow> nat \<Rightarrow> go_int \<Rightarrow> go_int \<Rightarrow> go_int \<Rightarrow> go_int \<Rightarrow> WindowInfo list \<Rightarrow>
   Globals \<Rightarrow> handle \<times> nat \<Rightarrow> (handle \<times> nat) \<times> Globals" where
  "bestMatch_loop W s a w h ex ey [] g best = (best, g)"
| "bestMatch_loop W s a w h ex ey (win # rest) g best =
     (if holder s a (ID win) \<noteq> None then bestMatch_loop W s a w h ex ey rest g best
      else if Width win = 0 \<and> Height win = 0
      then (case GetWindowDetails W g (ID win) of (r, g1) \<Rightarrow>
              (case got r of
                 None \<Rightarrow> bestMatch_loop W s a w h ex ey rest g1 best
               | Some details \<Rightarrow>
                   bestMatch_loop W s a w h ex ey rest g1
                     (if snd best < score details w h ex ey
                      then (ID win, score details w h ex ey) else best)))
      else bestMatch_loop W s a w h ex ey rest g
             (if snd best < score (toDetails win) w h ex ey
              then (ID win, score (toDetails win) w h ex ey) else best))"

text \<open>
  The earlier \<^verbatim>\<open>assignWindowID\<close> (lines 339-421). \<open>None\<close> is the nil dereference of
  \<^verbatim>\<open>sn.WinMain.GetSize()\<close>; a note without a \<^verbatim>\<open>StickyNote\<close> has no such method to call.
\<close>

definition assignWindowID_old :: "World \<Rightarrow> Sys \<Rightarrow> nat \<Rightarrow> Sys option" where
  "assignWindowID_old W s a =
     (case GUI (heap s a) of
        None \<Rightarrow> Some s
      | Some sn \<Rightarrow>
          if WindowID sn \<noteq> 0 then Some s
          else (case GetCurrentProcessWindows W (globals s) of (r, g1) \<Rightarrow>
            (case r of
               Inl err \<Rightarrow> Some (s\<lparr>globals := g1\<rparr>)
             | Inr windows \<Rightarrow>
                 if windows = [] then Some (s\<lparr>globals := g1\<rparr>)
                 else (case WinMain sn of
                    None \<Rightarrow> None
                  | Some win \<Rightarrow>
                      (case bestMatch_loop W s a (fst (GetSize win)) (snd (GetSize win))
                              (fst (LastKnownPos sn)) (snd (LastKnownPos sn)) windows g1 (0, 0) of
                         (best, g2) \<Rightarrow>
                           Some (if fst best \<noteq> 0
                                 then setGUI (s\<lparr>globals := g2\<rparr>) a (sn\<lparr>WindowID := fst best\<rparr>)
                                 else s\<lparr>globals := g2\<rparr>))))))"

text \<open>
  The fallback of \<^verbatim>\<open>onConfigure\<close> (lines 619-628 and 2180-2189, the same text): the
  toolkit's position is taken unless it is (0,0), its size when both sides exceed 1.
\<close>

definition toolkitGeometry :: "GtkWindow \<Rightarrow> StickyNote \<Rightarrow> StickyNote" where
  "toolkitGeometry win sn =
     (let x = fst (GetPosition win); y = snd (GetPosition win);
          w = fst (GetSize win); h = snd (GetSize win);
          sn1 = (if x \<noteq> 0 \<or> y \<noteq> 0 then sn\<lparr>LastKnownPos := (x, y)\<rparr> else sn)
      in if 1 <s w \<and> 1 <s h then sn1\<lparr>LastKnownSize := (w, h)\<rparr> else sn1)"

text \<open>
  The size scan of the earlier \<^verbatim>\<open>onConfigure\<close> (lines 588-597): the first window whose
  details have the note's size, within the tolerance, is taken.
\<close>

fun sizeScan_old ::
  "World \<Rightarrow> go_int \<Rightarrow> go_int \<Rightarrow> WindowInfo list \<Rightarrow> Globals \<Rightarrow> handle option \<times> Globals" where
  "sizeScan_old W w h [] g = (None, g)"
| "sizeScan_old W w h (win # rest) g =
     (case GetWindowDetails W g (ID win) of (r, g1) \<Rightarrow>
        (case got r of
           Some details \<Rightarrow>
             if sizeMatch details w h then (Some (ID win), g1)
             else sizeScan_old W w h rest g1
         | None \<Rightarrow> sizeScan_old W w h rest g1))"

text \<open>The earlier \<^verbatim>\<open>onConfigure\<close> (lines 574-631): it saves at once.\<close>

definition onConfigure_old :: "World \<Rightarrow> Sys \<Rightarrow> nat \<Rightarrow> Sys" where
  "onConfigure_old W s a =
     (case GUI (heap s a) of
        None \<Rightarrow> s
      | Some sn \<Rightarrow>
         (case WinMain sn of
            None \<Rightarrow> s
          | Some win \<Rightarrow>
              if IsWindowCallsAvailable W (globals s)
              then
                (case (if WindowID sn = 0
                       then (case GetCurrentProcessWindows W (globals s) of (r, g0) \<Rightarrow>
                               (case r of
                                  Inl err \<Rightarrow> (sn, g0)
                                | Inr windows \<Rightarrow>
                                    (case sizeScan_old W (fst (GetSize win)) (snd (GetSize win))
                                            windows g0 of
                                       (None, g1) \<Rightarrow> (sn, g1)
                                     | (Some wid, g1) \<Rightarrow> (sn\<lparr>WindowID := wid\<rparr>, g1))))
                       else (sn, globals s)) of
                   (sn1, g1) \<Rightarrow>
                     if WindowID sn1 \<noteq> 0
                     then (case GetWindowDetails W g1 (WindowID sn1) of (r, g2) \<Rightarrow>
                             (case got r of
                                Some details \<Rightarrow>
                                  Save W (setGUI (s\<lparr>globals := g2\<rparr>) a
                                    (sn1\<lparr>LastKnownPos := (X details, Y details),
                                         LastKnownSize := (Width details, Height details)\<rparr>))
                              | None \<Rightarrow>
                                  Save W (setGUI (s\<lparr>globals := g2\<rparr>) a (toolkitGeometry win sn1))))
                     else Save W (setGUI (s\<lparr>globals := g1\<rparr>) a (toolkitGeometry win sn1)))
              else Save W (setGUI s a (toolkitGeometry win sn))))"

text \<open>\<^verbatim>\<open>UUID[:8]\<close> does not panic.\<close>

definition sliceOK :: "string \<Rightarrow> bool" where
  "sliceOK uuid = (8 \<le> length uuid)"

text \<open>
  The checks that the later \<^verbatim>\<open>assignWindowID\<close> runs on a window whose title matches
  (lines 1577-1610, and again 1618-1651): the scan for another holder is repeated three
  times. A scan that finds a holder prints the first eight bytes of that note's UUID; the
  first two then go on with the next window, the third returns.
\<close>

datatype step = Assign | NextWindow | Return | Panic

definition checkedClaim :: "Sys \<Rightarrow> nat \<Rightarrow> handle \<Rightarrow> step" where
  "checkedClaim s a wid =
     (case holder s a wid of
        Some b \<Rightarrow> if sliceOK (UUID (heap s b)) then NextWindow else Panic
      | None \<Rightarrow>
         (case holder s a wid of
            Some b \<Rightarrow> if sliceOK (UUID (heap s b)) then NextWindow else Panic
          | None \<Rightarrow>
             (case holder s a wid of
                Some b \<Rightarrow> if sliceOK (UUID (heap s b)) then Return else Panic
              | None \<Rightarrow> Assign)))"

text \<open>
  The window loop of the later \<^verbatim>\<open>assignWindowID\<close> (lines 1558-1653). The title is the one
  of the details when \<^verbatim>\<open>GetWindowDetails\<close> succeeds, else the one of the \<^verbatim>\<open>List\<close> entry.
  The result is the handle to assign, if any; \<open>None\<close> is a panic.
\<close>

fun assign_loop ::
  "World \<Rightarrow> Sys \<Rightarrow> nat \<Rightarrow> string \<Rightarrow> WindowInfo list \<Rightarrow> Globals \<Rightarrow> (handle option \<times> Globals) option" where
  "assign_loop W s a expectedTitle [] g = Some (None, g)"
| "assign_loop W s a expectedTitle (win # rest) g =
     (case holder s a (ID win) of
        Some b \<Rightarrow>
          if sliceOK (UUID (heap s b)) then assign_loop W s a expectedTitle rest g else None
      | None \<Rightarrow>
         (case GetWindowDetails W g (ID win) of (r, g1) \<Rightarrow>
            if (case got r of None \<Rightarrow> Title win | Some details \<Rightarrow> Title details) = expectedTitle
            then (case checkedClaim s a (ID win) of
                    Assign \<Rightarrow> Some (Some (ID win), g1)
                  | NextWindow \<Rightarrow> assign_loop W s a expectedTitle rest g1
                  | Return \<Rightarrow> Some (None, g1)
                  | Panic \<Rightarrow> None)
            else assign_loop W s a expectedTitle rest g1))"

text \<open>
  The later \<^verbatim>\<open>assignWindowID\<close> (lines 1528-1655). Its log lines slice UUIDs: the note's own
  in the first statement, and in the loop of lines 1553-1557 the UUID of every note that
  holds a handle.
\<close>

definition printsHolders :: "Sys \<Rightarrow> bool" where
  "printsHolders s =
     list_all (\<lambda>b. case GUI (heap s b) of
                      None \<Rightarrow> True
                    | Some other \<Rightarrow> WindowID other = 0 \<or> sliceOK (UUID (heap s b))) (Notes s)"

definition assignWindowID :: "World \<Rightarrow> Sys \<Rightarrow> nat \<Rightarrow> Sys option" where
  "assignWindowID W s a =
     (case GUI (heap s a) of
        None \<Rightarrow> Some s
      | Some sn \<Rightarrow>
          (case noteTitle (UUID (heap s a)) of
             None \<Rightarrow> None
           | Some expectedTitle \<Rightarrow>
               if WindowID sn \<noteq> 0 then Some s
               else (case GetCurrentProcessWindows W (globals s) of (r, g1) \<Rightarrow>
                 (case r of
                    Inl err \<Rightarrow> Some (s\<lparr>globals := g1\<rparr>)
                  | Inr windows \<Rightarrow>
                      if windows = [] then Some (s\<lparr>globals := g1\<rparr>)
                      else if \<not> printsHolders s then None
                      else (case assign_loop W s a expectedTitle windows g1 of
                              None \<Rightarrow> None
                            | Some (None, g2) \<Rightarrow> Some (s\<lparr>globals := g2\<rparr>)
                            | Some (Some wid, g2) \<Rightarrow>
                                Some (setGUI (s\<lparr>globals := g2\<rparr>) a (sn\<lparr>WindowID := wid\<rparr>)))))))"

text \<open>
  The title scan of the later \<^verbatim>\<open>onConfigure\<close> (lines 2124-2155), \<^verbatim>\<open>Show\<close> (1781-1826) and
  \<^verbatim>\<open>buildNote\<close> (1392-1455): a window held by another note is skipped; a window whose
  details carry the expected title is taken when \<open>n\<close> further scans for another holder
  find none (\<open>n\<close> is 1 in \<^verbatim>\<open>onConfigure\<close>, 2 in \<^verbatim>\<open>Show\<close>, 3 in \<^verbatim>\<open>buildNote\<close>).
\<close>

fun recheck :: "nat \<Rightarrow> Sys \<Rightarrow> nat \<Rightarrow> handle \<Rightarrow> bool" where
  "recheck 0 s a wid = True"
| "recheck (Suc n) s a wid = (holder s a wid = None \<and> recheck n s a wid)"

fun titleScan ::
  "World \<Rightarrow> Sys \<Rightarrow> nat \<Rightarrow> string \<Rightarrow> nat \<Rightarrow> WindowInfo list \<Rightarrow> Globals \<Rightarrow> handle option \<times> Globals" where
  "titleScan W s a expectedTitle n [] g = (None, g)"
| "titleScan W s a expectedTitle n (win # rest) g =
     (if holder s a (ID win) \<noteq> None then titleScan W s a expectedTitle n rest g
      else (case GetWindowDetails W g (ID win) of (r, g1) \<Rightarrow>
        (case got r of
           Some details \<Rightarrow>
             if Title details = expectedTitle \<and> recheck n s a (ID win)
             then (Some (ID win), g1)
             else titleScan W s a expectedTitle n rest g1
         | None \<Rightarrow> titleScan W s a expectedTitle n rest g1)))"

text \<open>
  The block \<^verbatim>\<open>if sn.WindowID == 0 { ... }\<close> shared by these three handlers: the expected
  title, the process's windows, the scan. \<open>None\<close> is the panic of the slice expression.
\<close>

definition matchByTitle :: "World \<Rightarrow> nat \<Rightarrow> Sys \<Rightarrow> nat \<Rightarrow> StickyNote \<Rightarrow> (StickyNote \<times> Globals) option" where
  "matchByTitle W n s a sn =
     (case noteTitle (UUID (heap s a)) of
        None \<Rightarrow> None
      | Some expectedTitle \<Rightarrow>
          (case GetCurrentProcessWindows W (globals s) of (r, g0) \<Rightarrow>
             (case r of
                Inl err \<Rightarrow> Some (sn, g0)
              | Inr windows \<Rightarrow>
                  (case titleScan W s a expectedTitle n windows g0 of
                     (None, g1) \<Rightarrow> Some (sn, g1)
                   | (Some wid, g1) \<Rightarrow> Some (sn\<lparr>WindowID := wid\<rparr>, g1)))))"

text \<open>The later \<^verbatim>\<open>onConfigure\<close> (lines 2105-2197).\<close>

definition onConfigure :: "World \<Rightarrow> Sys \<Rightarrow> nat \<Rightarrow> Sys option" where
  "onConfigure W s a =
     (case GUI (heap s a) of
        None \<Rightarrow> Some s
      | Some sn0 \<Rightarrow>
         (case WinMain sn0 of
            None \<Rightarrow> Some s
          | Some win \<Rightarrow>
              (let s0 = cancelSave s a; sn = sn0\<lparr>saveTimeoutID := 0\<rparr> in
               if IsWindowCallsAvailable W (globals s0)
               then
                 (case (if WindowID sn = 0 then matchByTitle W 1 s0 a sn
                        else Some (sn, globals s0)) of
                    None \<Rightarrow> None
                  | Some (sn1, g1) \<Rightarrow>
                      if WindowID sn1 \<noteq> 0
                      then (case GetWindowDetails W g1 (WindowID sn1) of (r, g2) \<Rightarrow>
                              (case got r of
                                 Some details \<Rightarrow>
                                   Some (scheduleSave (s0\<lparr>globals := g2\<rparr>) a
                                     (sn1\<lparr>LastKnownPos := (X details, Y details),
                                          LastKnownSize := (Width details, Height details)\<rparr>))
                               | None \<Rightarrow>
                                   Some (scheduleSave (s0\<lparr>globals := g2\<rparr>) a
                                           (toolkitGeometry win sn1))))
                      else Some (scheduleSave (s0\<lparr>globals := g1\<rparr>) a (toolkitGeometry win sn1)))
               else Some (scheduleSave s0 a (toolkitGeometry win sn)))))"

text \<open>\<^verbatim>\<open>Hide\<close>, the later copy (lines 1869-1881) and the earlier one (lines 443-447).\<close>

definition Hide :: "Sys \<Rightarrow> nat \<Rightarrow> Sys" where
  "Hide s a =
     (let s0 = cancelSave s a in
      case GUI (heap s0 a) of
        None \<Rightarrow> s0
      | Some sn \<Rightarrow>
         (case WinMain sn of
            None \<Rightarrow> s0
          | Some win \<Rightarrow>
              setGUI s0 a (sn\<lparr>WindowID := 0, WinMain := Some (win\<lparr>GetVisible := False\<rparr>)\<rparr>)))"

definition Hide_old :: "Sys \<Rightarrow> nat \<Rightarrow> Sys" where
  "Hide_old s a =
     (case GUI (heap s a) of
        None \<Rightarrow> s
      | Some sn \<Rightarrow>
         (case WinMain sn of
            None \<Rightarrow> s
          | Some win \<Rightarrow> setGUI s a (sn\<lparr>WinMain := Some (win\<lparr>GetVisible := False\<rparr>)\<rparr>)))"

subsection \<open>window_calls.go: positions for the whole note set\<close>





subsection \<open>gui.go: building a note's window\<close>

text \<open>The loop of lines 1310-1318: the index of the note in \<^verbatim>\<open>NoteSet.Notes\<close>, 0 when absent.\<close>

fun noteIndex :: "nat \<Rightarrow> nat list \<Rightarrow> nat \<Rightarrow> nat" where
  "noteIndex a [] i = 0"
| "noteIndex a (b # bs) i = (if b = a then i else noteIndex a bs (Suc i))"

definition restorePosition :: "Sys \<Rightarrow> nat \<Rightarrow> StickyNote \<Rightarrow> (go_int \<times> go_int) \<times> StickyNote" where
  "restorePosition s a sn =
     (case prop_position (heap s a) of
        NumPair x y \<Rightarrow> ((x, y), sn\<lparr>LastKnownPos := (x, y)\<rparr>)
      | BadPair \<Rightarrow> ((10, 10), sn)
      | NoPair \<Rightarrow>
          (let i = of_nat (noteIndex a (Notes s) 0) :: go_int
           in ((10 + i * 30, 10 + i * 30), sn\<lparr>LastKnownPos := (10 + i * 30, 10 + i * 30)\<rparr>))
      | IntPair x y \<Rightarrow>
          (let i = of_nat (noteIndex a (Notes s) 0) :: go_int
           in ((10 + i * 30, 10 + i * 30), sn\<lparr>LastKnownPos := (10 + i * 30, 10 + i * 30)\<rparr>)))"

definition restoreSize :: "Sys \<Rightarrow> nat \<Rightarrow> GtkWindow \<Rightarrow> StickyNote \<Rightarrow> GtkWindow \<times> StickyNote" where
  "restoreSize s a win sn =
     (case prop_size (heap s a) of
        NumPair w h \<Rightarrow> (win\<lparr>GetSize := (w, h)\<rparr>, sn\<lparr>LastKnownSize := (w, h)\<rparr>)
      | BadPair \<Rightarrow> (win, sn)
      | NoPair \<Rightarrow> (win\<lparr>GetSize := (200, 150)\<rparr>, sn\<lparr>LastKnownSize := (200, 150)\<rparr>)
      | IntPair w h \<Rightarrow> (win\<lparr>GetSize := (200, 150)\<rparr>, sn\<lparr>LastKnownSize := (200, 150)\<rparr>))"

text \<open>
  \<^verbatim>\<open>buildNote\<close> of the later copy (lines 1215-1524), as far as the window, the geometry
  and the timers go: when the builder fails it returns with \<^verbatim>\<open>WinMain\<close> still nil; else
  it restores position and size, sets the title, shows the window with opacity 0 and
  schedules the matching callback after 300 ms (or an idle callback without the
  extension). \<open>None\<close> is the panic of the slice expression in \<^verbatim>\<open>SetTitle\<close>.
\<close>

definition buildNote :: "World \<Rightarrow> Sys \<Rightarrow> nat \<Rightarrow> StickyNote \<Rightarrow> (StickyNote \<times> Sys) option" where
  "buildNote W s a sn =
     (if \<not> BuilderOK W then Some (sn, s)
      else (case restorePosition s a (sn\<lparr>WinMain := Some (gtk_fresh W)\<rparr>) of (restorePos, sn1) \<Rightarrow>
        (case restoreSize s a (gtk_fresh W) sn1 of (win1, sn2) \<Rightarrow>
          (case noteTitle (UUID (heap s a)) of
             None \<Rightarrow> None
           | Some title \<Rightarrow>
               (let win2 = win1\<lparr>GetTitle := title, GetOpacity := 0, GetVisible := True\<rparr>;
                    sn3 = sn2\<lparr>WinMain := Some win2\<rparr>
                in if IsWindowCallsAvailable W (globals s)
                   then Some (sn3, snd (TimeoutAdd 300 (BuildTimeout a restorePos) s))
                   else Some (sn3, snd (TimeoutAdd 0 (IdleMove a restorePos) s)))))))"

text \<open>\<^verbatim>\<open>NewStickyNote\<close>, and the branch of \<^verbatim>\<open>Note.Show\<close> that stores its result in \<^verbatim>\<open>n.GUI\<close>.\<close>

definition NewStickyNote :: "World \<Rightarrow> Sys \<Rightarrow> nat \<Rightarrow> (StickyNote \<times> Sys) option" where
  "NewStickyNote W s a =
     buildNote W s a \<lparr>WinMain = None, LastKnownPos = (0, 0), LastKnownSize = (0, 0),
                       WindowID = 0, saveTimeoutID = 0\<rparr>"

definition Note_Show_new :: "World \<Rightarrow> Sys \<Rightarrow> nat \<Rightarrow> Sys option" where
  "Note_Show_new W s a =
     (case NewStickyNote W s a of None \<Rightarrow> None | Some (sn, s1) \<Rightarrow> Some (setGUI s1 a sn))"





subsection \<open>The main loop\<close>




subsection \<open>A concrete session\<close>

text \<open>
  The examples run in one session: Wayland with the extension enabled; three windows
  listed, two of this process (handles 7 and 9, the second without a title);
  \<^verbatim>\<open>Details\<close> failing inside the extension and \<^verbatim>\<open>Move\<close> answered with "service unknown"
  in \<open>W_ready\<close>; \<^verbatim>\<open>Details\<close> answering for handle 7 in \<open>W_details\<close>, and for the
  handles 7 and 9 in \<open>W_answering\<close>; the service gone in \<open>W_gone\<close>. The toolkit's \<^verbatim>\<open>Move\<close> has no effect, as under Wayland. Note A
  (address 1) holds handle 7, note B (address 2) holds none; both windows have the
  default size.
\<close>

definition W_ready :: World where
  "W_ready = \<lparr>IsWayland = True, currentPID = 4242, ConnectSessionBus = True,
     List_call = Parsed (Some
       [\<lparr>ID = 7, PID = 4242, X = 0, Y = 0, Width = 200, Height = 150, WMClass = ''postnote'',
         Title = ''Sticky Notes - 1b4e28ba''\<rparr>,
        \<lparr>ID = 8, PID = 17, X = 5, Y = 5, Width = 800, Height = 600, WMClass = ''term'',
         Title = ''shell''\<rparr>,
        \<lparr>ID = 9, PID = 4242, X = 0, Y = 0, Width = 200, Height = 150, WMClass = ''postnote'',
         Title = []\<rparr>]),
     Details_call = (\<lambda>h. CallFailed JSError),
     Move_call = (\<lambda>h x y. Some ServiceUnknown),
     BuilderOK = True,
     gtk_fresh = \<lparr>GetPosition = (0, 0), GetSize = (1, 1), GetVisible = False,
                   GetOpacity = 1, GetTitle = []\<rparr>,
     gtk_Move = (\<lambda>cur req. cur),
     dialog_accept = True\<rparr>"

definition g_ready :: Globals where
  "g_ready = \<lparr>windowCallsAvailable = True, windowCallsChecked = True, dbusConn = True,
               bus_log = []\<rparr>"

definition g_off :: Globals where
  "g_off = g_ready\<lparr>windowCallsAvailable := False\<rparr>"

definition W_gone :: World where
  "W_gone = W_ready\<lparr>List_call := CallFailed ServiceUnknown,
                     Details_call := (\<lambda>h. CallFailed ServiceUnknown)\<rparr>"

definition details7 :: WindowDetails where
  "details7 = \<lparr>ID = 7, PID = 4242, X = 300, Y = 400, Width = 204, Height = 154,
                WMClass = ''postnote'', Title = ''Sticky Notes - 1b4e28ba'',
                Maximized = 0, Focus = False\<rparr>"

definition details9 :: WindowDetails where
  "details9 = \<lparr>ID = 9, PID = 4242, X = 60, Y = 70, Width = 204, Height = 154,
                WMClass = ''postnote'', Title = ''Sticky Notes - 6fa459ea'',
                Maximized = 0, Focus = False\<rparr>"

definition W_details :: World where
  "W_details =
     W_ready\<lparr>Details_call := (\<lambda>h. if h = 7 then Parsed details7 else CallFailed JSError)\<rparr>"

definition W_answering :: World where
  "W_answering =
     W_ready\<lparr>Details_call := (\<lambda>h. if h = 7 then Parsed details7
                                  else if h = 9 then Parsed details9
                                  else CallFailed JSError)\<rparr>"

definition win_wayland :: GtkWindow where
  "win_wayland = \<lparr>GetPosition = (0, 0), GetSize = (200, 150), GetVisible = True,
                   GetOpacity = 1, GetTitle = ''Sticky Notes - 1b4e28ba''\<rparr>"

definition sn_matched :: StickyNote where
  "sn_matched = \<lparr>WinMain = Some win_wayland, LastKnownPos = (100, 200),
                  LastKnownSize = (200, 150), WindowID = 7, saveTimeoutID = 0\<rparr>"

definition sn_unmatched :: StickyNote where
  "sn_unmatched = \<lparr>WinMain = Some (win_wayland\<lparr>GetTitle := ''Sticky Notes - 6fa459ea''\<rparr>),
                    LastKnownPos = (40, 40), LastKnownSize = (200, 150), WindowID = 0,
                    saveTimeoutID = 0\<rparr>"

definition note_A :: Note where
  "note_A = \<lparr>UUID = ''1b4e28ba-2fa1-11d2-883f-0016d3cca427'', prop_position = NoPair,
              prop_size = NoPair, GUI = Some sn_matched\<rparr>"

definition note_B :: Note where
  "note_B = \<lparr>UUID = ''6fa459ea-ee8a-3ca4-894e-db77e160355e'', prop_position = NoPair,
              prop_size = NoPair, GUI = Some sn_unmatched\<rparr>"

definition sys_AB :: Sys where
  "sys_AB = \<lparr>globals = g_ready, heap = (\<lambda>a. if a = 1 then note_A else note_B), Notes = [1, 2],
              timers = [], next_source = 0, clock = 0, writes = [], detached = (\<lambda>a. None)\<rparr>"

subsection \<open>The process-window filter\<close>

lemma ourWindows_loop_filter:
  "ourWindows_loop pid acc ws = acc @ filter (\<lambda>win. PID win = pid) ws"
  by (induction ws arbitrary: acc) (simp_all add: Let_def)

text \<open>
  Claim C10. Whenever the external service answers \<^verbatim>\<open>List\<close> with a window list,
  \<^verbatim>\<open>GetCurrentProcessWindows\<close> returns exactly the windows of that list whose PID is the
  current process's, in the list's order. The title plays no part in the result: a window
  of this process is returned whatever its title is, also when it has none.
\<close>

theorem GetCurrentProcessWindows_pid_filter:
  assumes "ListWindows W g = (Inr (Some windows), g1)"
  shows "GetCurrentProcessWindows W g =
           (Inr (filter (\<lambda>win. PID win = currentPID W) windows), g1) \<and>
         ourWindows_loop (currentPID W) [] (map (\<lambda>win. win\<lparr>Title := f win\<rparr>) windows) =
           map (\<lambda>win. win\<lparr>Title := f win\<rparr>) (ourWindows_loop (currentPID W) [] windows)"
proof
  show "GetCurrentProcessWindows W g =
           (Inr (filter (\<lambda>win. PID win = currentPID W) windows), g1)"
    using assms by (simp add: GetCurrentProcessWindows_def ourWindows_loop_filter)
  show "ourWindows_loop (currentPID W) [] (map (\<lambda>win. win\<lparr>Title := f win\<rparr>) windows) =
           map (\<lambda>win. win\<lparr>Title := f win\<rparr>) (ourWindows_loop (currentPID W) [] windows)"
    by (simp add: ourWindows_loop_filter filter_map comp_def)
qed

lemma ListWindows_W_ready: "ListWindows W_ready g_ready = (Inr (Some
       [\<lparr>ID = 7, PID = 4242, X = 0, Y = 0, Width = 200, Height = 150, WMClass = ''postnote'', Title = ''Sticky Notes - 1b4e28ba''\<rparr>,
        \<lparr>ID = 8, PID = 17, X = 5, Y = 5, Width = 800, Height = 600, WMClass = ''term'', Title = ''shell''\<rparr>,
        \<lparr>ID = 9, PID = 4242, X = 0, Y = 0, Width = 200, Height = 150, WMClass = ''postnote'', Title = ''''\<rparr>]), g_ready\<lparr>bus_log := [CallList]\<rparr>)"
  by (simp add: ListWindows_def W_ready_def g_ready_def IsWindowCallsAvailable_def getDBusConnection_def)

theorem GetCurrentProcessWindows_pid_filter_witness:
  "GetCurrentProcessWindows W_ready g_ready =
     (Inr [\<lparr>ID = 7, PID = 4242, X = 0, Y = 0, Width = 200, Height = 150, WMClass = ''postnote'', Title = ''Sticky Notes - 1b4e28ba''\<rparr>,
           \<lparr>ID = 9, PID = 4242, X = 0, Y = 0, Width = 200, Height = 150, WMClass = ''postnote'', Title = ''''\<rparr>],
      g_ready\<lparr>bus_log := [CallList]\<rparr>)"
  using GetCurrentProcessWindows_pid_filter [OF ListWindows_W_ready, of "\<lambda>w. []"]
  by (simp add: W_ready_def)

subsection \<open>The error taxonomy of the external service\<close>

lemma not_available_ListWindows:
  "\<not> IsWindowCallsAvailable W g \<Longrightarrow> ListWindows W g = (Inr None, g)"
  by (simp add: ListWindows_def)

lemma not_available_GetWindowDetails:
  "\<not> IsWindowCallsAvailable W g \<Longrightarrow> GetWindowDetails W g h = (Inr None, g)"
  by (simp add: GetWindowDetails_def)

lemma not_available_MoveWindow:
  "\<not> IsWindowCallsAvailable W g \<Longrightarrow> MoveWindow W g h x y = (Some ErrNotAvailable, g)"
  by (simp add: MoveWindow_def)

lemma GetWindowDetails_got_iff:
  "got (fst (GetWindowDetails W g h)) = Some d \<longleftrightarrow>
     IsWindowCallsAvailable W g \<and> (dbusConn g \<or> ConnectSessionBus W) \<and> Details_call W h = Parsed d"
  by (auto simp: GetWindowDetails_def getDBusConnection_def got_def Let_def markUnavailable_def
           split: call_result.splits if_splits)

lemma GetWindowDetails_flag_mono:
  "windowCallsAvailable (snd (GetWindowDetails W g h)) \<Longrightarrow> windowCallsAvailable g"
  by (auto simp: GetWindowDetails_def getDBusConnection_def Let_def markUnavailable_def IsWindowCallsAvailable_def
           split: call_result.splits if_splits)

lemma ListWindows_flag_mono:
  "windowCallsAvailable (snd (ListWindows W g)) \<Longrightarrow> windowCallsAvailable g"
  by (auto simp: ListWindows_def getDBusConnection_def Let_def markUnavailable_def IsWindowCallsAvailable_def
           split: call_result.splits if_splits)

lemma MoveWindow_flag:
  "windowCallsAvailable (snd (MoveWindow W g h x y)) = windowCallsAvailable g"
  by (auto simp: MoveWindow_def getDBusConnection_def Let_def
           split: option.splits if_splits)

text \<open>
  Claim C7, as the code has it. A "service unknown" or "method unknown" error on a
  \<^verbatim>\<open>List\<close> or a \<^verbatim>\<open>Details\<close> call yields no data and clears \<^verbatim>\<open>windowCallsAvailable\<close>. Once
  the flag is clear, every later \<^verbatim>\<open>ListWindows\<close>, \<^verbatim>\<open>GetWindowDetails\<close> and \<^verbatim>\<open>MoveWindow\<close>
  returns at once and leaves the state as it is, the bus log included: nothing is sent, and
  nothing sets the flag again. A JavaScript error of the extension on \<^verbatim>\<open>Details\<close> yields no
  data for that call, leaves the flag set, and is not remembered: the next \<^verbatim>\<open>Details\<close> call
  for the same handle goes to the bus and returns what the extension then answers.
\<close>

theorem error_taxonomy:
  "(IsWindowCallsAvailable W g \<and> (dbusConn g \<or> ConnectSessionBus W) \<and>
      (e = ServiceUnknown \<or> e = UnknownMethod) \<longrightarrow>
        (List_call W = CallFailed e \<longrightarrow>
           fst (ListWindows W g) = Inr None \<and> \<not> windowCallsAvailable (snd (ListWindows W g))) \<and>
        (Details_call W h = CallFailed e \<longrightarrow>
           fst (GetWindowDetails W g h) = Inr None \<and>
           \<not> windowCallsAvailable (snd (GetWindowDetails W g h)))) \<and>
   (\<not> windowCallsAvailable g' \<longrightarrow>
        ListWindows W' g' = (Inr None, g') \<and> GetWindowDetails W' g' h' = (Inr None, g') \<and>
        MoveWindow W' g' h' x y = (Some ErrNotAvailable, g')) \<and>
   (IsWindowCallsAvailable V g \<and> (dbusConn g \<or> ConnectSessionBus V) \<and>
      Details_call V k = CallFailed JSError \<longrightarrow>
        fst (GetWindowDetails V g k) = Inr None \<and>
        windowCallsAvailable (snd (GetWindowDetails V g k)) \<and>
        (IsWayland V' \<and> Details_call V' k = Parsed d \<longrightarrow>
           fst (GetWindowDetails V' (snd (GetWindowDetails V g k)) k) = Inr (Some d)))"
proof (intro conjI impI)
  assume a: "IsWindowCallsAvailable W g \<and> (dbusConn g \<or> ConnectSessionBus W) \<and>
      (e = ServiceUnknown \<or> e = UnknownMethod)"
  { assume "List_call W = CallFailed e"
    with a show "fst (ListWindows W g) = Inr None"
      by (auto simp: ListWindows_def getDBusConnection_def Let_def)
    from a \<open>List_call W = CallFailed e\<close> show "\<not> windowCallsAvailable (snd (ListWindows W g))"
      by (auto simp: ListWindows_def getDBusConnection_def Let_def markUnavailable_def) }
  { assume "Details_call W h = CallFailed e"
    with a show "fst (GetWindowDetails W g h) = Inr None"
      by (auto simp: GetWindowDetails_def getDBusConnection_def Let_def)
    from a \<open>Details_call W h = CallFailed e\<close>
    show "\<not> windowCallsAvailable (snd (GetWindowDetails W g h))"
      by (auto simp: GetWindowDetails_def getDBusConnection_def Let_def markUnavailable_def) }
next
  assume "\<not> windowCallsAvailable g'"
  then have n: "\<not> IsWindowCallsAvailable W' g'" by (simp add: IsWindowCallsAvailable_def)
  from n show "ListWindows W' g' = (Inr None, g')" by (rule not_available_ListWindows)
  from n show "GetWindowDetails W' g' h' = (Inr None, g')" by (rule not_available_GetWindowDetails)
  from n show "MoveWindow W' g' h' x y = (Some ErrNotAvailable, g')" by (rule not_available_MoveWindow)
next
  assume b: "IsWindowCallsAvailable V g \<and> (dbusConn g \<or> ConnectSessionBus V) \<and>
      Details_call V k = CallFailed JSError"
  then show "fst (GetWindowDetails V g k) = Inr None"
    by (auto simp: GetWindowDetails_def getDBusConnection_def Let_def)
  from b show av: "windowCallsAvailable (snd (GetWindowDetails V g k))"
    by (auto simp: GetWindowDetails_def getDBusConnection_def Let_def IsWindowCallsAvailable_def)
  assume c: "IsWayland V' \<and> Details_call V' k = Parsed d"
  from b have conn: "dbusConn (snd (GetWindowDetails V g k))"
    by (auto simp: GetWindowDetails_def getDBusConnection_def Let_def)
  have "got (fst (GetWindowDetails V' (snd (GetWindowDetails V g k)) k)) = Some d"
    using av conn c by (simp add: GetWindowDetails_got_iff IsWindowCallsAvailable_def)
  then show "fst (GetWindowDetails V' (snd (GetWindowDetails V g k)) k) = Inr (Some d)"
    by (auto simp: got_def split: sum.splits option.splits)
qed

theorem error_taxonomy_witness:
  "IsWindowCallsAvailable W_gone g_ready \<and> dbusConn g_ready \<and>
   List_call W_gone = CallFailed ServiceUnknown \<and>
   Details_call W_gone 7 = CallFailed ServiceUnknown \<and>
   fst (ListWindows W_gone g_ready) = Inr None \<and>
   \<not> windowCallsAvailable (snd (ListWindows W_gone g_ready)) \<and>
   fst (GetWindowDetails W_gone g_ready 7) = Inr None \<and>
   \<not> windowCallsAvailable (snd (GetWindowDetails W_gone g_ready 7)) \<and>
   ListWindows W_ready (snd (ListWindows W_gone g_ready)) =
     (Inr None, snd (ListWindows W_gone g_ready)) \<and>
   GetWindowDetails W_details (snd (ListWindows W_gone g_ready)) 7 =
     (Inr None, snd (ListWindows W_gone g_ready)) \<and>
   Details_call W_ready 9 = CallFailed JSError \<and>
   fst (GetWindowDetails W_ready g_ready 9) = Inr None \<and>
   windowCallsAvailable (snd (GetWindowDetails W_ready g_ready 9)) \<and>
   Details_call W_details 7 = Parsed details7 \<and>
   fst (GetWindowDetails W_details (snd (GetWindowDetails W_ready g_ready 7)) 7) = Inr (Some details7)"
proof -
  have av: "IsWindowCallsAvailable W_gone g_ready" "dbusConn g_ready"
    "IsWindowCallsAvailable W_ready g_ready" "IsWayland W_details"
    by (simp_all add: IsWindowCallsAvailable_def W_gone_def W_ready_def g_ready_def W_details_def)
  have calls: "List_call W_gone = CallFailed ServiceUnknown"
    "Details_call W_gone 7 = CallFailed ServiceUnknown"
    "Details_call W_ready 9 = CallFailed JSError" "Details_call W_ready 7 = CallFailed JSError"
    "Details_call W_details 7 = Parsed details7"
    by (simp_all add: W_gone_def W_ready_def W_details_def)
  note t1 = error_taxonomy [of W_gone g_ready ServiceUnknown 7 "snd (ListWindows W_gone g_ready)"
      W_ready 7 0 0 W_ready 9 W_details details7]
  note t2 = error_taxonomy [of W_gone g_ready ServiceUnknown 7 "snd (ListWindows W_gone g_ready)"
      W_details 7 0 0 W_ready 7 W_details details7]
  show ?thesis using av calls t1 t2 by simp
qed

text \<open>
  The claim as stated speaks of any call. \<^verbatim>\<open>MoveWindow\<close> is the third call of the service:
  on "service unknown" it returns the error to its caller and leaves the flag set, so the
  next \<^verbatim>\<open>Details\<close> call still goes to the bus.
\<close>

theorem MoveWindow_keeps_available_counterexample:
  "Move_call W_ready 7 10 10 = Some ServiceUnknown \<and>
   windowCallsAvailable (snd (MoveWindow W_ready g_ready 7 10 10)) \<and>
   bus_log (snd (GetWindowDetails W_ready (snd (MoveWindow W_ready g_ready 7 10 10)) 7)) =
     [CallMove 7 10 10, CallDetails 7]"
  by (simp add: MoveWindow_def GetWindowDetails_def W_ready_def g_ready_def IsWindowCallsAvailable_def getDBusConnection_def)

subsection \<open>Geometry resolution\<close>

text \<open>
  Claim C6. For a note with a window, \<^verbatim>\<open>UpdateNote\<close> records the external service's
  position and size exactly when the integration is available, the handle is not 0 and the
  \<^verbatim>\<open>Details\<close> query succeeds (the toolkit's values play no part then); in every other case
  it records the toolkit's \<^verbatim>\<open>GetPosition\<close> and \<^verbatim>\<open>GetSize\<close>. When the integration is
  unavailable, and also when the handle is 0, nothing is sent on the bus.
\<close>

theorem UpdateNote_resolution:
  assumes "WinMain sn = Some win"
  shows "(IsWindowCallsAvailable W g \<and> WindowID sn \<noteq> 0 \<and>
            got (fst (GetWindowDetails W g (WindowID sn))) = Some d \<longrightarrow>
              LastKnownPos (fst (UpdateNote W g sn)) = (X d, Y d) \<and>
              LastKnownSize (fst (UpdateNote W g sn)) = (Width d, Height d)) \<and>
         (\<not> IsWindowCallsAvailable W g \<or> WindowID sn = 0 \<or>
            got (fst (GetWindowDetails W g (WindowID sn))) = None \<longrightarrow>
              LastKnownPos (fst (UpdateNote W g sn)) = GetPosition win \<and>
              LastKnownSize (fst (UpdateNote W g sn)) = GetSize win) \<and>
         (\<not> IsWindowCallsAvailable W g \<or> WindowID sn = 0 \<longrightarrow>
              bus_log (snd (UpdateNote W g sn)) = bus_log g \<and> snd (UpdateNote W g sn) = g)"
  using assms
  by (cases "GetWindowDetails W g (WindowID sn)")
     (auto simp: UpdateNote_def split: option.splits)

theorem UpdateNote_resolution_witness:
  "WinMain sn_matched = Some win_wayland \<and>
   IsWindowCallsAvailable W_details g_ready \<and> WindowID sn_matched \<noteq> 0 \<and>
   got (fst (GetWindowDetails W_details g_ready (WindowID sn_matched))) = Some details7 \<and>
   LastKnownPos (fst (UpdateNote W_details g_ready sn_matched)) = (300, 400) \<and>
   LastKnownSize (fst (UpdateNote W_details g_ready sn_matched)) = (204, 154) \<and>
   \<not> IsWindowCallsAvailable W_details g_off \<and>
   LastKnownPos (fst (UpdateNote W_details g_off sn_matched)) = (0, 0) \<and>
   LastKnownSize (fst (UpdateNote W_details g_off sn_matched)) = (200, 150) \<and>
   bus_log (snd (UpdateNote W_details g_off sn_matched)) = []"
proof -
  have w: "WinMain sn_matched = Some win_wayland" by (simp add: sn_matched_def)
  have a: "IsWindowCallsAvailable W_details g_ready" "WindowID sn_matched \<noteq> 0"
    "\<not> IsWindowCallsAvailable W_details g_off"
    by (simp_all add: IsWindowCallsAvailable_def W_details_def W_ready_def g_ready_def
                      sn_matched_def g_off_def)
  have d: "got (fst (GetWindowDetails W_details g_ready (WindowID sn_matched))) = Some details7"
    by (simp add: GetWindowDetails_got_iff a)
       (simp add: W_details_def W_ready_def g_ready_def sn_matched_def)
  have v: "X details7 = 300" "Y details7 = 400" "Width details7 = 204" "Height details7 = 154"
    "GetPosition win_wayland = (0, 0)" "GetSize win_wayland = (200, 150)" "bus_log g_off = []"
    by (simp_all add: details7_def win_wayland_def g_off_def g_ready_def)
  show ?thesis
    using w a d v UpdateNote_resolution [OF w, of W_details g_ready details7]
      UpdateNote_resolution [OF w, of W_details g_off details7]
    by simp
qed

subsection \<open>Title matching\<close>







lemma holder_None_iff:
  "holder s a wid = None \<longleftrightarrow> (\<forall>b\<in>set (Notes s). \<not> holds s a wid b)"
  by (auto simp: holder_def find_None_iff)

lemma holds_globals [simp]: "holds (s\<lparr>globals := g\<rparr>) a wid = holds s a wid"
  by (simp add: holds_def fun_eq_iff)

lemma holder_globals [simp]: "holder (s\<lparr>globals := g\<rparr>) a wid = holder s a wid"
  by (simp add: holder_def)









definition W_titled :: World where
  "W_titled = W_details\<lparr>List_call := Parsed (Some
       [\<lparr>ID = 7, PID = 4242, X = 0, Y = 0, Width = 200, Height = 150, WMClass = ''postnote'',
         Title = ''Sticky Notes - 1b4e28ba''\<rparr>,
        \<lparr>ID = 8, PID = 17, X = 5, Y = 5, Width = 800, Height = 600, WMClass = ''term'',
         Title = ''shell''\<rparr>,
        \<lparr>ID = 9, PID = 4242, X = 0, Y = 0, Width = 200, Height = 150, WMClass = ''postnote'',
         Title = ''Sticky Notes - 6fa459ea''\<rparr>])\<rparr>"

definition window9 :: WindowInfo where
  "window9 = \<lparr>ID = 9, PID = 4242, X = 0, Y = 0, Width = 200, Height = 150,
               WMClass = ''postnote'', Title = ''Sticky Notes - 6fa459ea''\<rparr>"

definition windows_titled :: "WindowInfo list" where
  "windows_titled =
     [\<lparr>ID = 7, PID = 4242, X = 0, Y = 0, Width = 200, Height = 150, WMClass = ''postnote'',
       Title = ''Sticky Notes - 1b4e28ba''\<rparr>, window9]"







subsection \<open>Size and position matching\<close>





text \<open>
  The candidates that the earlier \<^verbatim>\<open>assignWindowID\<close> scores, in the order of the list, each
  with its score: the windows that no other note holds and whose details are at hand (the
  \<^verbatim>\<open>List\<close> entry itself, or the answer of \<^verbatim>\<open>Details\<close> when the entry has width and height 0).
\<close>

fun scoredCandidates ::
  "World \<Rightarrow> Sys \<Rightarrow> nat \<Rightarrow> go_int \<Rightarrow> go_int \<Rightarrow> go_int \<Rightarrow> go_int \<Rightarrow> WindowInfo list \<Rightarrow>
   Globals \<Rightarrow> (handle \<times> nat) list" where
  "scoredCandidates W s a w h ex ey [] g = []"
| "scoredCandidates W s a w h ex ey (win # rest) g =
     (if holder s a (ID win) \<noteq> None then scoredCandidates W s a w h ex ey rest g
      else if Width win = 0 \<and> Height win = 0
      then (case got (fst (GetWindowDetails W g (ID win))) of
              None \<Rightarrow> scoredCandidates W s a w h ex ey rest (snd (GetWindowDetails W g (ID win)))
            | Some details \<Rightarrow>
                (ID win, score details w h ex ey) #
                scoredCandidates W s a w h ex ey rest (snd (GetWindowDetails W g (ID win))))
      else (ID win, score (toDetails win) w h ex ey) # scoredCandidates W s a w h ex ey rest g)"

definition better :: "handle \<times> nat \<Rightarrow> handle \<times> nat \<Rightarrow> handle \<times> nat" where
  "better best c = (if snd best < snd c then c else best)"

lemma bestMatch_loop_foldl:
  "fst (bestMatch_loop W s a w h ex ey ws g best) =
     foldl better best (scoredCandidates W s a w h ex ey ws g)"
proof (induction ws arbitrary: g best)
  case Nil
  then show ?case by simp
next
  case (Cons win rest)
  show ?case
  proof (cases "GetWindowDetails W g (ID win)")
    case (Pair r g1)
    then show ?thesis
      using Cons.IH by (simp add: better_def split: option.splits)
  qed
qed



text \<open>The result is the start value, or the first candidate that reaches the top score.\<close>

lemma foldl_better_first:
  "foldl better best cs = best \<and> (\<forall>c\<in>set cs. snd c \<le> snd best) \<or>
   (\<exists>pre post. cs = pre @ foldl better best cs # post \<and>
       (\<forall>c\<in>set pre. snd c < snd (foldl better best cs)) \<and>
       snd best < snd (foldl better best cs))"
proof (induction cs arbitrary: best)
  case Nil
  then show ?case by simp
next
  case (Cons x xs)
  let ?r = "foldl better (better best x) xs"
  show ?case
  proof (cases "snd best < snd x")
    case True
    then have b: "better best x = x" by (simp add: better_def)
    from Cons.IH [of x] show ?thesis
    proof
      assume "foldl better x xs = x \<and> (\<forall>c\<in>set xs. snd c \<le> snd x)"
      then have "x # xs = [] @ foldl better best (x # xs) # xs" using b by simp
      moreover have "snd best < snd (foldl better best (x # xs))"
        using b True \<open>foldl better x xs = x \<and> _\<close> by simp
      ultimately show ?thesis by (metis empty_iff list.set(1))
    next
      assume "\<exists>pre post. xs = pre @ foldl better x xs # post \<and>
         (\<forall>c\<in>set pre. snd c < snd (foldl better x xs)) \<and> snd x < snd (foldl better x xs)"
      then obtain pre post where p: "xs = pre @ foldl better x xs # post"
        "\<forall>c\<in>set pre. snd c < snd (foldl better x xs)" "snd x < snd (foldl better x xs)" by blast
      have "x # xs = (x # pre) @ foldl better best (x # xs) # post" using p(1) b by simp
      moreover have "\<forall>c\<in>set (x # pre). snd c < snd (foldl better best (x # xs))"
        using p b by simp
      moreover have "snd best < snd (foldl better best (x # xs))" using p(3) True b by simp
      ultimately show ?thesis by blast
    qed
  next
    case False
    then have b: "better best x = best" by (simp add: better_def)
    from Cons.IH [of best] show ?thesis
    proof
      assume "foldl better best xs = best \<and> (\<forall>c\<in>set xs. snd c \<le> snd best)"
      then show ?thesis using b False by auto
    next
      assume "\<exists>pre post. xs = pre @ foldl better best xs # post \<and>
         (\<forall>c\<in>set pre. snd c < snd (foldl better best xs)) \<and> snd best < snd (foldl better best xs)"
      then obtain pre post where p: "xs = pre @ foldl better best xs # post"
        "\<forall>c\<in>set pre. snd c < snd (foldl better best xs)" "snd best < snd (foldl better best xs)"
        by blast
      have "x # xs = (x # pre) @ foldl better best (x # xs) # post" using p(1) b by simp
      moreover have "\<forall>c\<in>set (x # pre). snd c < snd (foldl better best (x # xs))"
        using p b False by auto
      moreover have "snd best < snd (foldl better best (x # xs))" using p(3) b by simp
      ultimately show ?thesis by blast
    qed
  qed
qed


lemma scoredCandidates_free:
  "c \<in> set (scoredCandidates W s a w h ex ey ws g) \<Longrightarrow> holder s a (fst c) = None"
proof (induction ws arbitrary: g)
  case Nil
  then show ?case by simp
next
  case (Cons win rest)
  then show ?case
    by (auto split: if_splits option.splits)
qed

lemma score_size_first:
  "sizeMatch d1 w h \<Longrightarrow> \<not> sizeMatch d2 w h \<Longrightarrow> score d2 w h ex ey < score d1 w h ex ey"
  by (simp add: score_def)


text \<open>
  The candidates of \<^verbatim>\<open>UpdateNotePositionsFromWindowCalls\<close>, in the order of the list: the
  windows that no other note holds and for which \<^verbatim>\<open>Details\<close> answers, each with its
  details.
\<close>

fun sizeCandidates ::
  "World \<Rightarrow> Sys \<Rightarrow> nat \<Rightarrow> WindowInfo list \<Rightarrow> Globals \<Rightarrow> (handle \<times> WindowDetails) list" where
  "sizeCandidates W s a [] g = []"
| "sizeCandidates W s a (win # rest) g =
     (if holder s a (ID win) \<noteq> None then sizeCandidates W s a rest g
      else (case got (fst (GetWindowDetails W g (ID win))) of
              None \<Rightarrow> sizeCandidates W s a rest (snd (GetWindowDetails W g (ID win)))
            | Some details \<Rightarrow>
                (ID win, details) #
                sizeCandidates W s a rest (snd (GetWindowDetails W g (ID win)))))"





lemma sizeCandidates_globals [simp]:
  "sizeCandidates W (s\<lparr>globals := g0\<rparr>) a ws g = sizeCandidates W s a ws g"
  by (induction ws arbitrary: g) (simp_all split: option.splits)



















subsection \<open>One handle, one note\<close>

text \<open>
  Claim C1. The earlier \<^verbatim>\<open>onConfigure\<close> (lines 574-631) matches by size without looking at
  the handles that other notes hold. Note A holds handle 7; note B has none and a window
  of the same default size; the shell lists window 7 first. A configure notification for
  B stores 7 in B as well: two live notes hold the same handle.
\<close>

theorem onConfigure_old_claims_held_handle:
  "map_option WindowID (GUI (heap sys_AB 1)) = Some 7 \<and>
   map_option WindowID (GUI (heap sys_AB 2)) = Some 0 \<and>
   holder sys_AB 2 7 = Some 1 \<and>
   map_option WindowID (GUI (heap (onConfigure_old W_details sys_AB 2) 1)) = Some 7 \<and>
   map_option WindowID (GUI (heap (onConfigure_old W_details sys_AB 2) 2)) = Some 7"
  by code_simp

subsubsection \<open>The matchers that scan for another holder keep handles apart\<close>

text \<open>
  No two notes of \<^verbatim>\<open>NoteSet.Notes\<close> hold the same handle other than 0: for every note with a
  handle, the scan for another holder of that handle finds none.
\<close>

definition handles_apart :: "Sys \<Rightarrow> bool" where
  "handles_apart s =
     list_all (\<lambda>a. case GUI (heap s a) of
                      None \<Rightarrow> True
                    | Some sn \<Rightarrow> WindowID sn = 0 \<or> holder s a (WindowID sn) = None) (Notes s)"

lemma holds_setGUI_other:
  "b \<noteq> a \<Longrightarrow> holds (setGUI s a sn) c wid b = holds s c wid b"
  by (simp add: holds_def setGUI_def)

lemma Notes_setGUI [simp]: "Notes (setGUI s a sn) = Notes s"
  by (simp add: setGUI_def)

lemma claim_keeps_apart:
  assumes ap: "handles_apart s" and gui: "GUI (heap s a) = Some sn"
    and free: "holder s a wid = None"
  shows "handles_apart (setGUI s a (sn\<lparr>WindowID := wid\<rparr>))"
proof -
  let ?s = "setGUI s a (sn\<lparr>WindowID := wid\<rparr>)"
  have "case GUI (heap ?s b) of None \<Rightarrow> True
        | Some x \<Rightarrow> WindowID x = 0 \<or> holder ?s b (WindowID x) = None"
    if b: "b \<in> set (Notes s)" for b
  proof (cases "b = a")
    case True
    have "\<not> holds ?s a wid c" if c: "c \<in> set (Notes s)" for c
    proof (cases "c = a")
      case True
      then show ?thesis by (simp add: holds_def)
    next
      case False
      with free c show ?thesis by (simp add: holder_None_iff holds_setGUI_other)
    qed
    then have "holder ?s a wid = None" by (simp add: holder_None_iff)
    with True show ?thesis by (simp add: setGUI_def)
  next
    case False
    show ?thesis
    proof (cases "GUI (heap s b)")
      case None
      with False show ?thesis by (simp add: setGUI_def)
    next
      case (Some x)
      from ap b Some have x: "WindowID x = 0 \<or> holder s b (WindowID x) = None"
        by (auto simp: handles_apart_def list_all_iff)
      have "holder ?s b (WindowID x) = None" if nz: "WindowID x \<noteq> 0"
      proof -
        from x nz have h: "\<forall>c\<in>set (Notes s). \<not> holds s b (WindowID x) c"
          by (simp add: holder_None_iff)
        have "\<not> holds s a wid b" using free b by (simp add: holder_None_iff)
        with Some False have ne: "WindowID x \<noteq> wid" by (simp add: holds_def)
        have "\<not> holds ?s b (WindowID x) c" if c: "c \<in> set (Notes s)" for c
        proof (cases "c = a")
          case True
          with ne show ?thesis by (simp add: holds_def setGUI_def)
        next
          case False
          with h c show ?thesis by (simp add: holds_setGUI_other)
        qed
        then show ?thesis by (simp add: holder_None_iff)
      qed
      moreover from Some False have "GUI (heap ?s b) = Some x" by (simp add: setGUI_def)
      ultimately show ?thesis by (cases "WindowID x = 0") simp_all
    qed
  qed
  then show ?thesis by (simp add: handles_apart_def list_all_iff)
qed

lemma handles_apart_globals [simp]: "handles_apart (s\<lparr>globals := g\<rparr>) = handles_apart s"
  by (simp add: handles_apart_def cong: option.case_cong)

lemma assign_loop_free:
  "assign_loop W s a t ws g = Some (Some wid, g') \<Longrightarrow> holder s a wid = None"
proof (induction ws arbitrary: g)
  case Nil
  then show ?case by simp
next
  case (Cons win rest)
  show ?case
  proof (cases "GetWindowDetails W g (ID win)")
    case (Pair r g1)
    with Cons show ?thesis
      by (auto split: option.splits if_splits step.splits)
  qed
qed

lemma titleScan_free:
  "titleScan W s a t n ws g = (Some wid, g') \<Longrightarrow> holder s a wid = None"
proof (induction ws arbitrary: g)
  case Nil
  then show ?case by simp
next
  case (Cons win rest)
  show ?case
  proof (cases "GetWindowDetails W g (ID win)")
    case (Pair r g1)
    with Cons show ?thesis
      by (auto split: option.splits if_splits)
  qed
qed

text \<open>
  The later \<^verbatim>\<open>assignWindowID\<close> (title matching) and the earlier one (size and position
  scoring) both skip a window whose handle another note holds, so neither gives a second
  note a handle that is taken.
\<close>

lemma assignWindowID_keeps_apart:
  assumes "handles_apart s" "assignWindowID W s a = Some s'"
  shows "handles_apart s'"
proof (cases "GUI (heap s a)")
  case None
  with assms show ?thesis by (simp add: assignWindowID_def)
next
  case (Some sn)
  obtain r g1 where l: "GetCurrentProcessWindows W (globals s) = (r, g1)"
    by (cases "GetCurrentProcessWindows W (globals s)")
  from assms(2) Some obtain t where t: "noteTitle (UUID (heap s a)) = Some t"
    by (auto simp: assignWindowID_def split: option.splits)
  show ?thesis
  proof (cases "WindowID sn \<noteq> 0 \<or> (\<exists>e. r = Inl e) \<or> r = Inr []")
    case True
    with assms Some t l show ?thesis
      by (auto simp: assignWindowID_def split: if_splits)
  next
    case False
    then obtain ws where ws: "r = Inr ws" "ws \<noteq> []" "WindowID sn = 0"
      by (cases r) auto
    with assms(2) Some t l obtain res g2 where
      lp: "assign_loop W s a t ws g1 = Some (res, g2)"
      by (auto simp: assignWindowID_def split: if_splits option.splits)
    show ?thesis
    proof (cases res)
      case None
      with assms Some t l ws lp show ?thesis
        by (auto simp: assignWindowID_def split: if_splits)
    next
      case (Some wid)
      with lp have "holder s a wid = None" using assign_loop_free by blast
      then have "handles_apart (setGUI (s\<lparr>globals := g2\<rparr>) a (sn\<lparr>WindowID := wid\<rparr>))"
        using claim_keeps_apart [of "s\<lparr>globals := g2\<rparr>" a sn wid] assms(1) \<open>GUI (heap s a) = Some sn\<close>
        by simp
      with assms(2) \<open>GUI (heap s a) = Some sn\<close> t l ws lp Some show ?thesis
        by (auto simp: assignWindowID_def split: if_splits)
    qed
  qed
qed

lemma assignWindowID_old_keeps_apart:
  assumes "handles_apart s" "assignWindowID_old W s a = Some s'"
  shows "handles_apart s'"
proof (cases "GUI (heap s a)")
  case None
  with assms show ?thesis by (simp add: assignWindowID_old_def)
next
  case (Some sn)
  obtain r g1 where l: "GetCurrentProcessWindows W (globals s) = (r, g1)"
    by (cases "GetCurrentProcessWindows W (globals s)")
  show ?thesis
  proof (cases "WindowID sn \<noteq> 0 \<or> (\<exists>e. r = Inl e) \<or> r = Inr []")
    case True
    with assms Some l show ?thesis
      by (auto simp: assignWindowID_old_def split: if_splits)
  next
    case False
    then obtain ws where ws: "r = Inr ws" "ws \<noteq> []" "WindowID sn = 0"
      by (cases r) auto
    with assms(2) Some l obtain win where win: "WinMain sn = Some win"
      by (auto simp: assignWindowID_old_def split: option.splits)
    let ?cs = "scoredCandidates W s a (fst (GetSize win)) (snd (GetSize win))
                 (fst (LastKnownPos sn)) (snd (LastKnownPos sn)) ws g1"
    let ?loop = "bestMatch_loop W s a (fst (GetSize win)) (snd (GetSize win))
                 (fst (LastKnownPos sn)) (snd (LastKnownPos sn)) ws g1 (0, 0)"
    obtain best g2 where lp: "?loop = (best, g2)" by (cases ?loop)
    have b: "best = foldl better (0, 0) ?cs"
      using bestMatch_loop_foldl [of W s a "fst (GetSize win)" "snd (GetSize win)"
          "fst (LastKnownPos sn)" "snd (LastKnownPos sn)" ws g1 "(0, 0)"] lp by simp
    show ?thesis
    proof (cases "fst best = 0")
      case True
      with assms Some l ws win lp show ?thesis
        by (auto simp: assignWindowID_old_def)
    next
      case False
      from foldl_better_first [of "(0, 0)" ?cs] b False have "best \<in> set ?cs"
        by (metis fst_conv in_set_conv_decomp)
      then have "holder s a (fst best) = None" by (rule scoredCandidates_free)
      then have "handles_apart (setGUI (s\<lparr>globals := g2\<rparr>) a (sn\<lparr>WindowID := fst best\<rparr>))"
        using claim_keeps_apart [of "s\<lparr>globals := g2\<rparr>" a sn "fst best"] assms(1) Some
        by simp
      with assms(2) Some l ws win lp False show ?thesis
        by (auto simp: assignWindowID_old_def)
    qed
  qed
qed

text \<open>
  The earlier \<^verbatim>\<open>onConfigure\<close> does not: the session above starts with the handles apart and
  ends with two holders of handle 7.
\<close>

lemma onConfigure_old_breaks_apart:
  "handles_apart sys_AB \<and> \<not> handles_apart (onConfigure_old W_details sys_AB 2)"
  by code_simp

subsection \<open>Last known geometry when no source has data\<close>

definition sn_degenerate :: StickyNote where
  "sn_degenerate = \<lparr>WinMain = Some (win_wayland\<lparr>GetSize := (1, 1)\<rparr>), LastKnownPos = (100, 200),
                     LastKnownSize = (200, 150), WindowID = 0, saveTimeoutID = 0\<rparr>"

text \<open>
  Claim C9. The note has last known position (100,200) and size (200,150) and no handle;
  the toolkit reports position (0,0) and size (1,1). \<^verbatim>\<open>UpdateNote\<close>, with the
  integration unavailable and also with the extension present, overwrites both values with
  (0,0) and (1,1).
\<close>

theorem UpdateNote_overwrites_last_known:
  "LastKnownPos sn_degenerate = (100, 200) \<and> LastKnownSize sn_degenerate = (200, 150) \<and>
   LastKnownPos (fst (UpdateNote W_gone g_off sn_degenerate)) = (0, 0) \<and>
   LastKnownSize (fst (UpdateNote W_gone g_off sn_degenerate)) = (1, 1) \<and>
   LastKnownPos (fst (UpdateNote W_ready g_ready sn_degenerate)) = (0, 0) \<and>
   LastKnownSize (fst (UpdateNote W_ready g_ready sn_degenerate)) = (1, 1)"
  by code_simp

text \<open>
  The fallback of \<^verbatim>\<open>onConfigure\<close> does retain the values: a reported position (0,0) leaves
  the last known position, and a reported size of at most 1 in either direction leaves the
  last known size.
\<close>

lemma toolkitGeometry_retains:
  "GetPosition win = (0, 0) \<Longrightarrow> LastKnownPos (toolkitGeometry win sn) = LastKnownPos sn"
  "\<not> (1 <s fst (GetSize win) \<and> 1 <s snd (GetSize win)) \<Longrightarrow>
     LastKnownSize (toolkitGeometry win sn) = LastKnownSize sn"
  by (auto simp: toolkitGeometry_def Let_def)

lemma onConfigure_retains_when_unavailable:
  assumes "GUI (heap s a) = Some sn" "WinMain sn = Some win"
    and "\<not> IsWindowCallsAvailable W (globals s)"
    and "GetPosition win = (0, 0)" "\<not> (1 <s fst (GetSize win) \<and> 1 <s snd (GetSize win))"
  shows "\<exists>s' sn'. onConfigure W s a = Some s' \<and> GUI (heap s' a) = Some sn' \<and>
           LastKnownPos sn' = LastKnownPos sn \<and> LastKnownSize sn' = LastKnownSize sn"
proof -
  have g: "globals (cancelSave s a) = globals s"
    using assms(1) by (simp add: cancelSave_def setGUI_def SourceRemove_def)
  let ?sn = "toolkitGeometry win (sn\<lparr>saveTimeoutID := 0\<rparr>)"
  have o: "onConfigure W s a = Some (scheduleSave (cancelSave s a) a ?sn)"
    using assms(1,2,3) g by (simp add: onConfigure_def Let_def)
  obtain i where
    "GUI (heap (scheduleSave (cancelSave s a) a ?sn) a) = Some (?sn\<lparr>saveTimeoutID := i\<rparr>)"
    by (auto simp: scheduleSave_def TimeoutAdd_def setGUI_def Let_def)
  moreover have "LastKnownPos (?sn\<lparr>saveTimeoutID := i\<rparr>) = LastKnownPos sn"
    "LastKnownSize (?sn\<lparr>saveTimeoutID := i\<rparr>) = LastKnownSize sn"
    using toolkitGeometry_retains(1) [OF assms(4), of "sn\<lparr>saveTimeoutID := 0\<rparr>"]
      toolkitGeometry_retains(2) [OF assms(5), of "sn\<lparr>saveTimeoutID := 0\<rparr>"] by simp_all
  ultimately show ?thesis using o by blast
qed

subsection \<open>The handle's life cycle\<close>

text \<open>\<^verbatim>\<open>NoteSet.AssignWindowIDs\<close> (settings.go, lines 830-836).\<close>

fun AssignWindowIDs_loop :: "World \<Rightarrow> nat list \<Rightarrow> Sys \<Rightarrow> Sys option" where
  "AssignWindowIDs_loop W [] s = Some s"
| "AssignWindowIDs_loop W (b # bs) s =
     (case GUI (heap s b) of
        None \<Rightarrow> AssignWindowIDs_loop W bs s
      | Some sn \<Rightarrow>
          if WinMain sn \<noteq> None \<and> WindowID sn = 0
          then (case assignWindowID W s b of
                  None \<Rightarrow> None
                | Some s1 \<Rightarrow> AssignWindowIDs_loop W bs s1)
          else AssignWindowIDs_loop W bs s)"

definition AssignWindowIDs :: "World \<Rightarrow> Sys \<Rightarrow> Sys option" where
  "AssignWindowIDs W s = AssignWindowIDs_loop W (Notes s) s"

lemma assign_loop_listed:
  "assign_loop W s a t ws g = Some (Some wid, g') \<Longrightarrow> wid \<in> ID ` set ws"
proof (induction ws arbitrary: g)
  case Nil
  then show ?case by simp
next
  case (Cons win rest)
  show ?case
  proof (cases "GetWindowDetails W g (ID win)")
    case (Pair r g1)
    with Cons show ?thesis
      by (auto split: option.splits if_splits step.splits)
  qed
qed

lemma titleScan_listed:
  "titleScan W s a t n ws g = (Some wid, g') \<Longrightarrow> wid \<in> ID ` set ws"
proof (induction ws arbitrary: g)
  case Nil
  then show ?case by simp
next
  case (Cons win rest)
  show ?case
  proof (cases "GetWindowDetails W g (ID win)")
    case (Pair r g1)
    with Cons show ?thesis
      by (auto split: option.splits if_splits)
  qed
qed

lemma restorePosition_keeps:
  "WindowID (snd (restorePosition s a sn)) = WindowID sn"
  "saveTimeoutID (snd (restorePosition s a sn)) = saveTimeoutID sn"
  by (simp_all add: restorePosition_def Let_def split: prop_pair.splits)

lemma restoreSize_keeps:
  "WindowID (snd (restoreSize s a win sn)) = WindowID sn"
  "saveTimeoutID (snd (restoreSize s a win sn)) = saveTimeoutID sn"
  by (simp_all add: restoreSize_def split: prop_pair.splits)

lemma buildNote_keeps_WindowID:
  assumes "buildNote W s a sn = Some (sn1, s1)"
  shows "WindowID sn1 = WindowID sn"
proof (cases "BuilderOK W")
  case False
  with assms show ?thesis by (simp add: buildNote_def)
next
  case True
  obtain rp snA where p: "restorePosition s a (sn\<lparr>WinMain := Some (gtk_fresh W)\<rparr>) = (rp, snA)"
    by (cases "restorePosition s a (sn\<lparr>WinMain := Some (gtk_fresh W)\<rparr>)")
  obtain w1 snB where z: "restoreSize s a (gtk_fresh W) snA = (w1, snB)"
    by (cases "restoreSize s a (gtk_fresh W) snA")
  have "WindowID snA = WindowID sn"
    using restorePosition_keeps(1) [of s a "sn\<lparr>WinMain := Some (gtk_fresh W)\<rparr>"] p by simp
  moreover have "WindowID snB = WindowID snA"
    using restoreSize_keeps(1) [of s a "gtk_fresh W" snA] z by simp
  ultimately show ?thesis
    using assms True p z
    by (auto simp: buildNote_def Let_def split: option.splits if_splits)
qed

lemma Note_Show_new_unassigned:
  assumes "Note_Show_new W s a = Some s1"
  shows "map_option WindowID (GUI (heap s1 a)) = Some 0"
proof -
  from assms obtain sn s0 where n: "NewStickyNote W s a = Some (sn, s0)" and e: "s1 = setGUI s0 a sn"
    by (auto simp: Note_Show_new_def split: option.splits)
  from n have "WindowID sn = 0"
    unfolding NewStickyNote_def using buildNote_keeps_WindowID by fastforce
  with e show ?thesis by (simp add: setGUI_def)
qed

lemma cancelSave_GUI:
  "GUI (heap s a) = Some sn \<Longrightarrow> GUI (heap (cancelSave s a) a) = Some (sn\<lparr>saveTimeoutID := 0\<rparr>)"
  by (simp add: cancelSave_def setGUI_def SourceRemove_def)

lemma Hide_unassigned:
  assumes "GUI (heap s a) = Some sn" "WinMain sn = None \<longrightarrow> WindowID sn = 0"
  shows "map_option WindowID (GUI (heap (Hide s a) a)) = Some 0"
  using assms cancelSave_GUI [OF assms(1)]
  by (auto simp: Hide_def Let_def setGUI_def split: option.splits)

text \<open>
  The later copy. A note's handle is 0 right after \<^verbatim>\<open>Note.Show\<close> has built its window and
  right after \<^verbatim>\<open>Hide\<close>; and when a matcher finds a window to claim (the loop of
  \<^verbatim>\<open>assignWindowID\<close>, or the title scan of \<^verbatim>\<open>onConfigure\<close>, \<^verbatim>\<open>Show\<close> and \<^verbatim>\<open>buildNote\<close>), the
  handle it stores is that window's and is not 0. The handles listed by the shell are not
  0, and a note without a window holds no handle: no matcher runs for such a note
  (\<^verbatim>\<open>onConfigure\<close> returns at once, \<^verbatim>\<open>AssignWindowIDs\<close> skips it, the callbacks are scheduled
  after the window exists), and \<^verbatim>\<open>Hide\<close> then has nothing to reset.
\<close>

lemma sentinel_safety:
  assumes gui: "GUI (heap s a) = Some sn"
    and inv: "WinMain sn = None \<longrightarrow> WindowID sn = 0"
    and ids: "\<forall>v\<in>set windows. ID v \<noteq> 0"
    and lst: "GetCurrentProcessWindows W (globals s) = (Inr windows, g1)"
    and t: "noteTitle (UUID (heap s a)) = Some t"
  shows "(Note_Show_new W0 s0 a0 = Some s1 \<longrightarrow>
            map_option WindowID (GUI (heap s1 a0)) = Some 0) \<and>
         map_option WindowID (GUI (heap (Hide s a) a)) = Some 0 \<and>
         (WindowID sn = 0 \<and> printsHolders s \<and>
          assign_loop W s a t windows g1 = Some (Some wid, g2) \<longrightarrow>
            assignWindowID W s a = Some (setGUI (s\<lparr>globals := g2\<rparr>) a (sn\<lparr>WindowID := wid\<rparr>)) \<and>
            wid \<noteq> 0) \<and>
         (titleScan W s a t n windows g1 = (Some wid', g3) \<longrightarrow>
            matchByTitle W n s a sn = Some (sn\<lparr>WindowID := wid'\<rparr>, g3) \<and> wid' \<noteq> 0)"
proof (intro conjI impI)
  assume "Note_Show_new W0 s0 a0 = Some s1"
  then show "map_option WindowID (GUI (heap s1 a0)) = Some 0" by (rule Note_Show_new_unassigned)
next
  show "map_option WindowID (GUI (heap (Hide s a) a)) = Some 0"
    using gui inv by (rule Hide_unassigned)
next
  assume a: "WindowID sn = 0 \<and> printsHolders s \<and>
      assign_loop W s a t windows g1 = Some (Some wid, g2)"
  then have "windows \<noteq> []" by auto
  with a gui lst t
  show "assignWindowID W s a = Some (setGUI (s\<lparr>globals := g2\<rparr>) a (sn\<lparr>WindowID := wid\<rparr>))"
    by (simp add: assignWindowID_def)
  from a have "wid \<in> ID ` set windows" using assign_loop_listed by blast
  with ids show "wid \<noteq> 0" by auto
next
  assume a: "titleScan W s a t n windows g1 = (Some wid', g3)"
  with lst t show "matchByTitle W n s a sn = Some (sn\<lparr>WindowID := wid'\<rparr>, g3)"
    by (simp add: matchByTitle_def)
  from a have "wid' \<in> ID ` set windows" by (rule titleScan_listed)
  with ids show "wid' \<noteq> 0" by auto
qed

definition W_both :: World where
  "W_both = W_titled\<lparr>Details_call := (\<lambda>h. if h = 7 then Parsed details7
                                           else if h = 9 then Parsed details9
                                           else CallFailed JSError)\<rparr>"

definition sys_fresh :: Sys where
  "sys_fresh = sys_AB\<lparr>heap := (\<lambda>a. if a = 1 then note_A else note_B\<lparr>GUI := None\<rparr>)\<rparr>"

lemma windows_W_both:
  "GetCurrentProcessWindows W_both (globals sys_AB) =
     (Inr windows_titled, g_ready\<lparr>bus_log := [CallList]\<rparr>)"
  by (simp add: GetCurrentProcessWindows_def ListWindows_def IsWindowCallsAvailable_def
      getDBusConnection_def W_both_def W_titled_def W_details_def W_ready_def g_ready_def
      sys_AB_def windows_titled_def window9_def Let_def)

lemma scans_W_both:
  "assign_loop W_both sys_AB 2 ''Sticky Notes - 6fa459ea'' windows_titled
      (g_ready\<lparr>bus_log := [CallList]\<rparr>) =
     Some (Some 9, g_ready\<lparr>bus_log := [CallList, CallDetails 9]\<rparr>)"
  "titleScan W_both sys_AB 2 ''Sticky Notes - 6fa459ea'' 1 windows_titled
      (g_ready\<lparr>bus_log := [CallList]\<rparr>) =
     (Some 9, g_ready\<lparr>bus_log := [CallList, CallDetails 9]\<rparr>)"
  by code_simp+

text \<open>
  Note A holds 7 and holds 0 after \<^verbatim>\<open>Hide\<close>; note B, freshly built, holds 0; matched by
  title in a session whose \<^verbatim>\<open>Details\<close> answers for window 9, it holds 9.
\<close>

lemma sentinel_safety_example:
  "map_option WindowID (GUI (heap sys_AB 1)) = Some 7 \<and>
   map_option WindowID (GUI (heap (Hide sys_AB 1) 1)) = Some 0 \<and>
   (\<exists>s1. Note_Show_new W_both sys_fresh 2 = Some s1 \<and>
          map_option WindowID (GUI (heap s1 2)) = Some 0) \<and>
   assignWindowID W_both sys_AB 2 =
     Some (setGUI (sys_AB\<lparr>globals := g_ready\<lparr>bus_log := [CallList, CallDetails 9]\<rparr>\<rparr>) 2
             (sn_unmatched\<lparr>WindowID := 9\<rparr>)) \<and>
   matchByTitle W_both 1 sys_AB 2 sn_unmatched =
     Some (sn_unmatched\<lparr>WindowID := 9\<rparr>, g_ready\<lparr>bus_log := [CallList, CallDetails 9]\<rparr>) \<and>
   (9 :: handle) \<noteq> 0"
proof -
  have g1: "GUI (heap sys_AB 1) = Some sn_matched" and g2: "GUI (heap sys_AB 2) = Some sn_unmatched"
    and i1: "WinMain sn_matched = None \<longrightarrow> WindowID sn_matched = 0"
    and i2: "WinMain sn_unmatched = None \<longrightarrow> WindowID sn_unmatched = 0"
    and u: "WindowID sn_unmatched = 0" and m: "WindowID sn_matched = 7"
    by (simp_all add: sys_AB_def note_A_def note_B_def sn_matched_def sn_unmatched_def)
  have ids: "\<forall>v\<in>set windows_titled. ID v \<noteq> 0" by (simp add: windows_titled_def window9_def)
  have t1: "noteTitle (UUID (heap sys_AB 1)) = Some ''Sticky Notes - 1b4e28ba''"
    and t2: "noteTitle (UUID (heap sys_AB 2)) = Some ''Sticky Notes - 6fa459ea''"
    by (simp_all add: noteTitle_def sys_AB_def note_A_def note_B_def)
  have p: "printsHolders sys_AB"
    by (simp add: printsHolders_def sys_AB_def note_A_def note_B_def sliceOK_def)
  have "\<not> Option.is_none (Note_Show_new W_both sys_fresh 2)" by code_simp
  then obtain s1 where n: "Note_Show_new W_both sys_fresh 2 = Some s1"
    by (auto simp: Option.is_none_def)
  note a = sentinel_safety [OF g1 i1 ids windows_W_both t1, of W_both sys_fresh 2 s1]
  note b = sentinel_safety [OF g2 i2 ids windows_W_both t2, of W_both sys_fresh 2 s1 9
      "g_ready\<lparr>bus_log := [CallList, CallDetails 9]\<rparr>" 1 9
      "g_ready\<lparr>bus_log := [CallList, CallDetails 9]\<rparr>"]
  from a b n g1 m u p scans_W_both show ?thesis by simp
qed

lemma Hide_old_keeps_WindowID:
  "GUI (heap s a) = Some sn \<Longrightarrow>
     map_option WindowID (GUI (heap (Hide_old s a) a)) = Some (WindowID sn)"
  by (auto simp: Hide_old_def setGUI_def split: option.splits)

text \<open>
  Claim C4. The earlier \<^verbatim>\<open>Hide\<close> (lines 443-447) hides the window and leaves the handle as
  it is: note A holds handle 7 before it and after it. The later \<^verbatim>\<open>Hide\<close> (lines
  1869-1881) resets the handle to 0 in the same state. With the handle of the hidden
  window still in place, the earlier \<^verbatim>\<open>assignWindowID\<close> returns at once, without asking
  the shell: the note is not matched again.
\<close>

theorem Hide_old_keeps_handle:
  "map_option WindowID (GUI (heap sys_AB 1)) = Some 7 \<and>
   map_option (\<lambda>sn. (WindowID sn, map_option GetVisible (WinMain sn)))
     (GUI (heap (Hide_old sys_AB 1) 1)) = Some (7, Some False) \<and>
   map_option (\<lambda>sn. (WindowID sn, map_option GetVisible (WinMain sn)))
     (GUI (heap (Hide sys_AB 1) 1)) = Some (0, Some False) \<and>
   map_option (\<lambda>s. (map_option WindowID (GUI (heap s 1)), bus_log (globals s)))
     (assignWindowID_old W_answering (Hide_old sys_AB 1) 1) = Some (Some 7, [])"
  by code_simp

subsection \<open>The debounced save\<close>














































subsection \<open>Pending timers when a note is hidden or deleted\<close>
















end
